theory Spec2Isabelle
  imports Complex_Main "HOL-Library.AList" "HOL-Library.Multiset" "HOL-Library.Word"
begin

section \<open>Patient Vitals: a shallow embedding of main.py\<close>

text \<open>
  The service stores vital-sign readings in one MongoDB collection, lists a patient's
  readings and renders the newest one as a one-page PDF. The handlers of main.py are
  embedded as functions on an explicit database and file system; the clock, the fresh
  object id of an insert and the library conversions that main.py calls but does not
  define are parameters.
\<close>

subsection \<open>Python values\<close>

text \<open>
  A naive UTC \<open>datetime\<close> is the instant it denotes, in microseconds since the epoch.
  A float is the real number it denotes (NaN and the infinities are left out). An
  \<open>ObjectId\<close> is its twelve bytes.
\<close>

type_synonym datetime = int
type_synonym ObjectId = "96 word"

datatype pyval =
    PyNone
  | PyInt int
  | PyFloat real
  | PyStr string
  | PyDatetime datetime
  | PyDict "(string \<times> pyval) list"

text \<open>A dict keeps its keys in insertion order: an association list with distinct keys.\<close>

type_synonym pydict = "(string \<times> pyval) list"

definition dict_get :: "pydict \<Rightarrow> string \<Rightarrow> pyval" where
  \<comment> \<open>\<open>d.get(k)\<close>: \<open>None\<close> for a missing key\<close>
  "dict_get d k = (case map_of d k of None \<Rightarrow> PyNone | Some x \<Rightarrow> x)"

definition dict_set :: "pydict \<Rightarrow> string \<Rightarrow> pyval \<Rightarrow> pydict" where
  \<comment> \<open>\<open>d[k] = x\<close>: an existing key keeps its place, a new key goes last\<close>
  "dict_set d k x = AList.update k x d"

definition py_opt :: "('a \<Rightarrow> pyval) \<Rightarrow> 'a option \<Rightarrow> pyval" where
  "py_opt f x = (case x of None \<Rightarrow> PyNone | Some a \<Rightarrow> f a)"

text \<open>
  The functions of the Python library that main.py calls on floats and datetimes.
  \<open>strftime\<close> is \<open>strftime("%Y%m%d%H%M%S")\<close>; \<open>fromisoformat\<close> is \<open>None\<close> where
  \<open>datetime.fromisoformat\<close> raises.
\<close>

record pylib =
  float_str :: "real \<Rightarrow> string"
  isoformat :: "datetime \<Rightarrow> string"
  strftime :: "datetime \<Rightarrow> string"
  fromisoformat :: "string \<Rightarrow> datetime option"

subsubsection \<open>\<open>str\<close> of an int and of an ObjectId\<close>

definition digit_char :: "nat \<Rightarrow> char" where
  "digit_char n = ''0123456789abcdef'' ! n"

fun str_nat :: "nat \<Rightarrow> string" where
  "str_nat n = (if n < 10 then [digit_char n] else str_nat (n div 10) @ [digit_char (n mod 10)])"

declare str_nat.simps [simp del]

definition str_int :: "int \<Rightarrow> string" where
  "str_int i = (if i < 0 then CHR ''-'' # str_nat (nat (- i)) else str_nat (nat i))"

definition str_oid :: "ObjectId \<Rightarrow> string" where
  \<comment> \<open>24 hexadecimal digits, the most significant first\<close>
  "str_oid w = map (\<lambda>i. digit_char (unat (take_bit 4 (drop_bit (4 * (23 - i)) w)))) [0..<24]"

definition format_opt_int :: "int option \<Rightarrow> string" where
  \<comment> \<open>an \<open>Optional[int]\<close> inside an f-string: \<open>None\<close> prints as \<open>None\<close>\<close>
  "format_opt_int x = (case x of None \<Rightarrow> ''None'' | Some i \<Rightarrow> str_int i)"

subsubsection \<open>Truthiness, \<open>or\<close> and \<open>str\<close> of the values handed to \<open>draw_row\<close>\<close>

datatype scalar = SInt int | SFloat real | SStr string

fun truthy :: "scalar \<Rightarrow> bool" where
  "truthy (SInt i) = (i \<noteq> 0)"
| "truthy (SFloat x) = (x \<noteq> 0)"
| "truthy (SStr s) = (s \<noteq> [])"

fun py_or :: "scalar option \<Rightarrow> scalar \<Rightarrow> scalar" where
  \<comment> \<open>\<open>x or d\<close> for an optional \<open>x\<close>: \<open>d\<close> when \<open>x\<close> is \<open>None\<close> or falsy\<close>
  "py_or None d = d"
| "py_or (Some x) d = (if truthy x then x else d)"

fun str_scalar :: "pylib \<Rightarrow> scalar \<Rightarrow> string" where
  "str_scalar L (SInt i) = str_int i"
| "str_scalar L (SFloat x) = float_str L x"
| "str_scalar L (SStr s) = s"

subsection \<open>The Pydantic models (main.py lines 34-47)\<close>

record BloodPressure =
  systolic :: "int option"
  diastolic :: "int option"

record Vitals =
  patient_id :: string
  patient_name :: "string option"
  timestamp :: "datetime option"
  heart_rate :: "int option"
  blood_pressure :: "BloodPressure option"
  respiratory_rate :: "int option"
  temperature_c :: "real option"
  oxygen_saturation :: "int option"
  notes' :: "string option"

text \<open>\<open>.dict()\<close>: every declared field in declaration order, nested models as dicts.\<close>

definition BloodPressure_dict :: "BloodPressure \<Rightarrow> pydict" where
  "BloodPressure_dict bp =
     [(''systolic'', py_opt PyInt (systolic bp)),
      (''diastolic'', py_opt PyInt (diastolic bp))]"

definition Vitals_dict :: "Vitals \<Rightarrow> pydict" where
  "Vitals_dict v =
     [(''patient_id'', PyStr (patient_id v)),
      (''patient_name'', py_opt PyStr (patient_name v)),
      (''timestamp'', py_opt PyDatetime (timestamp v)),
      (''heart_rate'', py_opt PyInt (heart_rate v)),
      (''blood_pressure'', py_opt (PyDict \<circ> BloodPressure_dict) (blood_pressure v)),
      (''respiratory_rate'', py_opt PyInt (respiratory_rate v)),
      (''temperature_c'', py_opt PyFloat (temperature_c v)),
      (''oxygen_saturation'', py_opt PyInt (oxygen_saturation v)),
      (''notes'', py_opt PyStr (notes' v))]"

text \<open>
  Exceptions. An \<open>HTTPException\<close> carries its status and detail; anything else that
  escapes a handler becomes a 500 response.
\<close>

datatype exn = HTTPException nat string | ValidationError | OverflowError | OSError | ValueError

text \<open>
  Model construction from keyword arguments, \<open>Vitals(**doc)\<close>: a missing optional
  field and \<open>None\<close> give \<open>None\<close>, a value of the declared type is taken as it is, an
  int is accepted for a float, unknown keys are ignored. Pydantic's further coercions of
  values of another type differ between its versions and are not modelled: such a value
  is rejected here, and no theorem below relies on a rejection.
\<close>

fun validate_str :: "pyval option \<Rightarrow> exn + string" where
  "validate_str (Some (PyStr s)) = Inr s"
| "validate_str _ = Inl ValidationError"

fun validate_opt_str :: "pyval option \<Rightarrow> exn + string option" where
  "validate_opt_str None = Inr None"
| "validate_opt_str (Some PyNone) = Inr None"
| "validate_opt_str (Some (PyStr s)) = Inr (Some s)"
| "validate_opt_str _ = Inl ValidationError"

fun validate_opt_int :: "pyval option \<Rightarrow> exn + int option" where
  "validate_opt_int None = Inr None"
| "validate_opt_int (Some PyNone) = Inr None"
| "validate_opt_int (Some (PyInt i)) = Inr (Some i)"
| "validate_opt_int _ = Inl ValidationError"

fun validate_opt_float :: "pyval option \<Rightarrow> exn + real option" where
  "validate_opt_float None = Inr None"
| "validate_opt_float (Some PyNone) = Inr None"
| "validate_opt_float (Some (PyFloat x)) = Inr (Some x)"
| "validate_opt_float (Some (PyInt i)) = Inr (Some (of_int i))"
| "validate_opt_float _ = Inl ValidationError"

fun validate_opt_datetime :: "pyval option \<Rightarrow> exn + datetime option" where
  "validate_opt_datetime None = Inr None"
| "validate_opt_datetime (Some PyNone) = Inr None"
| "validate_opt_datetime (Some (PyDatetime t)) = Inr (Some t)"
| "validate_opt_datetime _ = Inl ValidationError"

definition and_then :: "exn + 'a \<Rightarrow> ('a \<Rightarrow> exn + 'b) \<Rightarrow> exn + 'b" where
  \<comment> \<open>run the rest unless the first step raised\<close>
  "and_then m f = (case m of Inl e \<Rightarrow> Inl e | Inr x \<Rightarrow> f x)"

definition BloodPressure_validate :: "pydict \<Rightarrow> exn + BloodPressure" where
  "BloodPressure_validate d =
     and_then (validate_opt_int (map_of d ''systolic'')) (\<lambda>s.
     and_then (validate_opt_int (map_of d ''diastolic'')) (\<lambda>di.
     Inr \<lparr>systolic = s, diastolic = di\<rparr>))"

fun validate_opt_bp :: "pyval option \<Rightarrow> exn + BloodPressure option" where
  "validate_opt_bp None = Inr None"
| "validate_opt_bp (Some PyNone) = Inr None"
| "validate_opt_bp (Some (PyDict d)) = and_then (BloodPressure_validate d) (\<lambda>bp. Inr (Some bp))"
| "validate_opt_bp _ = Inl ValidationError"

definition Vitals_validate :: "pydict \<Rightarrow> exn + Vitals" where
  "Vitals_validate d =
     and_then (validate_str (map_of d ''patient_id'')) (\<lambda>pid.
     and_then (validate_opt_str (map_of d ''patient_name'')) (\<lambda>pn.
     and_then (validate_opt_datetime (map_of d ''timestamp'')) (\<lambda>ts.
     and_then (validate_opt_int (map_of d ''heart_rate'')) (\<lambda>hr.
     and_then (validate_opt_bp (map_of d ''blood_pressure'')) (\<lambda>bp.
     and_then (validate_opt_int (map_of d ''respiratory_rate'')) (\<lambda>rr.
     and_then (validate_opt_float (map_of d ''temperature_c'')) (\<lambda>tc.
     and_then (validate_opt_int (map_of d ''oxygen_saturation'')) (\<lambda>os.
     and_then (validate_opt_str (map_of d ''notes'')) (\<lambda>n.
     Inr \<lparr>patient_id = pid, patient_name = pn, timestamp = ts, heart_rate = hr,
          blood_pressure = bp, respiratory_rate = rr, temperature_c = tc,
          oxygen_saturation = os, notes' = n\<rparr>)))))))))"

subsection \<open>The collection \<open>db.vitals\<close>\<close>

text \<open>
  A stored document is its \<open>_id\<close> and its other fields; the collection keeps its
  documents in insertion order. The document that \<open>post_vitals\<close> hands to
  \<open>insert_one\<close> has no \<open>_id\<close>, so the driver gives it the fresh one.

  The driver encodes the document as BSON before it is stored. A BSON date counts whole
  milliseconds, so the microseconds of a datetime below the millisecond are dropped; a
  BSON integer has at most 64 bits, and the driver raises \<open>OverflowError\<close> for an int
  outside that range, in which case nothing is stored. Failures of the connection and
  the size limit of a document are outside the model.
\<close>

type_synonym document = "ObjectId \<times> pydict"

record database =
  vitals :: "document list"

definition to_millis :: "datetime \<Rightarrow> datetime" where
  \<comment> \<open>the instant with its microseconds below the millisecond dropped\<close>
  "to_millis t = t div 1000 * 1000"

definition int64 :: "int \<Rightarrow> bool" where
  "int64 i = (- (2 ^ 63) \<le> i \<and> i < 2 ^ 63)"

primrec bson_ok :: "pyval \<Rightarrow> bool" where
  "bson_ok PyNone = True"
| "bson_ok (PyInt i) = int64 i"
| "bson_ok (PyFloat x) = True"
| "bson_ok (PyStr s) = True"
| "bson_ok (PyDatetime t) = True"
| "bson_ok (PyDict d) = list_all snd (map (map_prod id bson_ok) d)"

primrec bson :: "pyval \<Rightarrow> pyval" where
  \<comment> \<open>the value as it comes back from the collection\<close>
  "bson PyNone = PyNone"
| "bson (PyInt i) = PyInt i"
| "bson (PyFloat x) = PyFloat x"
| "bson (PyStr s) = PyStr s"
| "bson (PyDatetime t) = PyDatetime (to_millis t)"
| "bson (PyDict d) = PyDict (map (map_prod id bson) d)"

definition insert_one :: "ObjectId \<Rightarrow> document list \<Rightarrow> pydict \<Rightarrow> exn + document list \<times> ObjectId" where
  "insert_one oid coll doc =
     (if bson_ok (PyDict doc) then Inr (coll @ [(oid, map (map_prod id bson) doc)], oid)
      else Inl OverflowError)"

definition matches :: "string \<Rightarrow> document \<Rightarrow> bool" where
  \<comment> \<open>the filter \<open>{"patient_id": patient_id}\<close>\<close>
  "matches pid d = (map_of (snd d) ''patient_id'' = Some (PyStr pid))"

definition find_docs :: "document list \<Rightarrow> string \<Rightarrow> document list" where
  "find_docs coll pid = filter (matches pid) coll"

text \<open>
  The server's sort order on the values of one field: values of different BSON types by
  the rank of the type, dates by instant; a missing field counts as null. The order among
  two values of one type other than date is not modelled (they count as ties), and ties
  keep their insertion order here, where the server promises no order.
\<close>

fun bson_rank :: "pyval \<Rightarrow> nat" where
  "bson_rank PyNone = 1"
| "bson_rank (PyInt i) = 2"
| "bson_rank (PyFloat x) = 2"
| "bson_rank (PyStr s) = 3"
| "bson_rank (PyDict d) = 4"
| "bson_rank (PyDatetime t) = 9"

fun bson_le :: "pyval \<Rightarrow> pyval \<Rightarrow> bool" where
  "bson_le (PyDatetime a) (PyDatetime b) = (a \<le> b)"
| "bson_le a b = (bson_rank a \<le> bson_rank b)"

definition field :: "string \<Rightarrow> document \<Rightarrow> pyval" where
  "field k d = dict_get (snd d) k"

fun insert_desc :: "string \<Rightarrow> document \<Rightarrow> document list \<Rightarrow> document list" where
  "insert_desc k x [] = [x]"
| "insert_desc k x (y # ys) =
     (if bson_le (field k y) (field k x) then x # y # ys else y # insert_desc k x ys)"

fun sort_desc :: "string \<Rightarrow> document list \<Rightarrow> document list" where
  \<comment> \<open>\<open>.sort(k, -1)\<close>\<close>
  "sort_desc k [] = []"
| "sort_desc k (x # xs) = insert_desc k x (sort_desc k xs)"

definition find_one :: "document list \<Rightarrow> string \<Rightarrow> document option" where
  \<comment> \<open>\<open>find_one({"patient_id": patient_id}, sort=[("timestamp", -1)])\<close>\<close>
  "find_one coll pid =
     (case sort_desc ''timestamp'' (find_docs coll pid) of [] \<Rightarrow> None | d # ds \<Rightarrow> Some d)"

subsection \<open>Responses and the framework's dispatch\<close>

datatype json = JObject pydict | JArray "pydict list"

datatype response =
    JSONResponse nat json
  | FileResponse string string string
  | PlainTextResponse nat string

fun status :: "response \<Rightarrow> nat" where
  "status (JSONResponse sc j) = sc"
| "status (FileResponse p m f) = 200"
| "status (PlainTextResponse sc t) = sc"

text \<open>
  A handler returns a response object or a plain value, or raises. FastAPI sends a
  returned response object as it is; it wraps a plain value in a JSON response with the
  status code of the route's decorator (200 when the decorator gives none); an
  \<open>HTTPException\<close> becomes a JSON response with its own status; any other exception
  becomes the plain 500 response.
\<close>

datatype returned = Resp response | Val json

fun endpoint :: "nat \<Rightarrow> exn + returned \<Rightarrow> response" where
  "endpoint sc (Inr (Resp r)) = r"
| "endpoint sc (Inr (Val j)) = JSONResponse sc j"
| "endpoint sc (Inl (HTTPException code detail)) =
     JSONResponse code (JObject [(''detail'', PyStr detail)])"
| "endpoint sc (Inl e) = PlainTextResponse 500 ''Internal Server Error''"

subsection \<open>\<open>post_vitals\<close> (main.py lines 101-109)\<close>

text \<open>
  \<open>now\<close> is what \<open>datetime.utcnow()\<close> returns during the call, \<open>oid\<close> the id the
  insert assigns. \<open>JSONResponse(...)\<close> is built without a status code, so it carries
  Starlette's default, 200.
\<close>

definition post_vitals :: "datetime \<Rightarrow> ObjectId \<Rightarrow> database \<Rightarrow> Vitals \<Rightarrow> database \<times> (exn + returned)" where
  "post_vitals now oid db v0 =
     (let v = (if timestamp v0 = None then v0\<lparr>timestamp := Some now\<rparr> else v0);
          doc = Vitals_dict v
      in case insert_one oid (vitals db) doc of
           Inl e \<Rightarrow> (db, Inl e)
         | Inr (coll, inserted_id) \<Rightarrow>
             (db\<lparr>vitals := coll\<rparr>,
              Inr (Resp (JSONResponse 200 (JObject
                [(''message'', PyStr ''Vitals saved''),
                 (''patient_id'', PyStr (patient_id v)),
                 (''id'', PyStr (str_oid inserted_id))])))))"

definition route_post_vitals :: "datetime \<Rightarrow> ObjectId \<Rightarrow> database \<Rightarrow> Vitals \<Rightarrow> database \<times> response" where
  \<comment> \<open>\<open>@app.post("/vitals", status_code=201)\<close>\<close>
  "route_post_vitals now oid db v =
     (case post_vitals now oid db v of (db', r) \<Rightarrow> (db', endpoint 201 r))"

subsection \<open>\<open>get_vitals\<close> (main.py lines 111-125)\<close>

definition json_doc :: "pylib \<Rightarrow> document \<Rightarrow> pydict" where
  \<comment> \<open>the loop body: \<open>_id\<close> as a string, a datetime \<open>timestamp\<close> in ISO format\<close>
  "json_doc L d =
     (''_id'', PyStr (str_oid (fst d))) #
     (case dict_get (snd d) ''timestamp'' of
        PyDatetime ts \<Rightarrow> dict_set (snd d) ''timestamp'' (PyStr (isoformat L ts))
      | _ \<Rightarrow> snd d)"

definition get_vitals :: "pylib \<Rightarrow> database \<Rightarrow> string \<Rightarrow> exn + returned" where
  "get_vitals L db pid =
     (let cursor = sort_desc ''timestamp'' (find_docs (vitals db) pid);
          docs = map (json_doc L) cursor
      in if docs = [] then Inl (HTTPException 404 ''No vitals for that patient'')
         else Inr (Val (JArray docs)))"

definition route_get_vitals :: "pylib \<Rightarrow> database \<Rightarrow> string \<Rightarrow> response" where
  \<comment> \<open>\<open>@app.get("/vitals/{patient_id}")\<close>\<close>
  "route_get_vitals L db pid = endpoint 200 (get_vitals L db pid)"

subsection \<open>\<open>build_vitals_pdf\<close> (main.py lines 128-165)\<close>

text \<open>
  The canvas is the list of the calls made on it. The page size is reportlab's A4, in
  points. Strings are byte strings in UTF-8, so the two characters after the bracket in
  the temperature label of main.py are four bytes.

  The file system is the files written so far and the directories that exist; line 51
  of main.py creates the reports directory when the module is loaded. Saving the canvas
  opens the file for writing: Python refuses a path with a NUL byte, and the file system
  refuses a file name of more than 255 bytes and a directory that does not exist. Other
  failures of the disk are outside the model.
\<close>

datatype pdfop = SetFont string nat | DrawString real real string | ShowPage | Save

type_synonym canvas = "pdfop list"

record filesystem =
  files :: "string \<Rightarrow> canvas option"
  dirs :: "string set"

definition inch :: real where
  "inch = 72"

definition mm :: real where
  "mm = inch / 2.54 * 0.1"

definition A4 :: "real \<times> real" where
  "A4 = (210 * mm, 297 * mm)"

definition REPORTS_DIR :: string where
  "REPORTS_DIR = ''reports''"

definition path_join :: "string \<Rightarrow> string \<Rightarrow> string" where
  \<comment> \<open>\<open>os.path.join\<close> of two components\<close>
  "path_join a b =
     (if b \<noteq> [] \<and> hd b = CHR ''/'' then b
      else if a = [] \<or> last a = CHR ''/'' then a @ b
      else a @ ''/'' @ b)"

definition basename :: "string \<Rightarrow> string" where
  \<comment> \<open>\<open>os.path.basename\<close>: what follows the last slash\<close>
  "basename p = rev (takeWhile (\<lambda>c. c \<noteq> CHR ''/'') (rev p))"

definition dirname :: "string \<Rightarrow> string" where
  \<comment> \<open>\<open>os.path.dirname\<close>: what precedes the last slash, without trailing slashes\<close>
  "dirname p =
     (let head = rev (dropWhile (\<lambda>c. c \<noteq> CHR ''/'') (rev p))
      in if head \<noteq> [] \<and> \<not> list_all (\<lambda>c. c = CHR ''/'') head
         then rev (dropWhile (\<lambda>c. c = CHR ''/'') (rev head))
         else head)"

definition write_file :: "filesystem \<Rightarrow> string \<Rightarrow> canvas \<Rightarrow> exn + filesystem" where
  \<comment> \<open>what \<open>c.save()\<close> does with the finished page\<close>
  "write_file fs path c =
     (if CHR 0x00 \<in> set path then Inl ValueError
      else if 255 < length (basename path) then Inl OSError
      else if dirname path \<notin> dirs fs then Inl OSError
      else Inr (fs\<lparr>files := (files fs)(path \<mapsto> c)\<rparr>))"

definition draw_row :: "pylib \<Rightarrow> real \<Rightarrow> canvas \<times> real \<Rightarrow> string \<Rightarrow> scalar \<Rightarrow> canvas \<times> real" where
  \<comment> \<open>the closure of main.py, with the canvas and the non-local \<open>y\<close> as state\<close>
  "draw_row L left cy label val =
     (case cy of (c, y) \<Rightarrow>
        (c @ [SetFont ''Helvetica-Bold'' 10,
              DrawString left y (label @ '':''),
              SetFont ''Helvetica'' 10,
              DrawString (left + 160) y (str_scalar L val)],
         y - 20))"

definition temperature_label :: string where
  "temperature_label = ''Temperature ('' @ [CHR 0xC3, CHR 0x82, CHR 0xC2, CHR 0xB0] @ ''C)''"

definition vitals_page :: "pylib \<Rightarrow> string \<Rightarrow> Vitals \<Rightarrow> canvas" where
  \<comment> \<open>lines 134-164: everything drawn between opening the canvas and saving it\<close>
  "vitals_page L pid v =
     (let (width, height) = A4;
          left = 50;
          top = height - 50;
          c = [SetFont ''Helvetica-Bold'' 16,
               DrawString left top
                 (''Vitals Report - '' @
                  str_scalar L (py_or (map_option SStr (patient_name v)) (SStr pid))),
               SetFont ''Helvetica'' 11,
               DrawString left (top - 30) (''Patient ID: '' @ pid),
               DrawString left (top - 50)
                 (''Timestamp: '' @
                  (case timestamp v of Some t \<Rightarrow> isoformat L t | None \<Rightarrow> ''N/A''))];
          s = (c, top - 90);
          s = draw_row L left s ''Heart Rate (bpm)''
                (py_or (map_option SInt (heart_rate v)) (SStr ''N/A''));
          bp_str = (case blood_pressure v of
                      None \<Rightarrow> ''N/A''
                    | Some bp \<Rightarrow>
                        format_opt_int (systolic bp) @ ''/'' @
                        format_opt_int (diastolic bp) @ '' mmHg'');
          s = draw_row L left s ''Blood Pressure'' (SStr bp_str);
          s = draw_row L left s ''Respiratory Rate (breaths/min)''
                (py_or (map_option SInt (respiratory_rate v)) (SStr ''N/A''));
          s = draw_row L left s temperature_label
                (py_or (map_option SFloat (temperature_c v)) (SStr ''N/A''));
          s = draw_row L left s ''Oxygen Saturation (%)''
                (py_or (map_option SInt (oxygen_saturation v)) (SStr ''N/A''));
          s = draw_row L left s ''Notes''
                (py_or (map_option SStr (notes' v)) (SStr ''-''))
      in fst s @ [ShowPage, Save])"

definition build_vitals_pdf :: "pylib \<Rightarrow> datetime \<Rightarrow> filesystem \<Rightarrow> string \<Rightarrow> Vitals \<Rightarrow> exn + filesystem \<times> string" where
  \<comment> \<open>\<open>now\<close> is what \<open>datetime.utcnow()\<close> returns on line 129\<close>
  "build_vitals_pdf L now fs pid v =
     (let ts = (case timestamp v of Some t \<Rightarrow> strftime L t | None \<Rightarrow> strftime L now);
          fname = pid @ ''_'' @ ts @ ''.pdf'';
          path = path_join REPORTS_DIR fname
      in case write_file fs path (vitals_page L pid v) of
           Inl e \<Rightarrow> Inl e
         | Inr fs' \<Rightarrow> Inr (fs', path))"

subsection \<open>\<open>get_vitals_pdf\<close> (main.py lines 167-192)\<close>

definition normalize_doc :: "pylib \<Rightarrow> datetime \<Rightarrow> pydict \<Rightarrow> pydict" where
  \<comment> \<open>lines 180-185: a string timestamp is parsed, or replaced by \<open>utcnow()\<close>\<close>
  "normalize_doc L now doc =
     (case dict_get doc ''timestamp'' of
        PyStr ts \<Rightarrow>
          (case fromisoformat L ts of
             Some t \<Rightarrow> dict_set doc ''timestamp'' (PyDatetime t)
           | None \<Rightarrow> dict_set doc ''timestamp'' (PyDatetime now))
      | _ \<Rightarrow> doc)"

definition get_vitals_pdf :: "pylib \<Rightarrow> datetime \<Rightarrow> datetime \<Rightarrow> database \<Rightarrow> filesystem \<Rightarrow> string \<Rightarrow> filesystem \<times> (exn + returned)" where
  \<comment> \<open>\<open>now\<close> is the clock on line 185, \<open>now'\<close> the clock inside \<open>build_vitals_pdf\<close>\<close>
  "get_vitals_pdf L now now' db fs pid =
     (case find_one (vitals db) pid of
        None \<Rightarrow> (fs, Inl (HTTPException 404 ''No vitals to make PDF''))
      | Some d \<Rightarrow>
          (case Vitals_validate (normalize_doc L now (snd d)) of
             Inl e \<Rightarrow> (fs, Inl e)
           | Inr v \<Rightarrow>
               (case build_vitals_pdf L now' fs pid v of
                  Inl e \<Rightarrow> (fs, Inl e)
                | Inr (fs', pdf_path) \<Rightarrow>
                    (fs', Inr (Resp (FileResponse pdf_path ''application/pdf''
                                       (basename pdf_path)))))))"

definition route_get_vitals_pdf :: "pylib \<Rightarrow> datetime \<Rightarrow> datetime \<Rightarrow> database \<Rightarrow> filesystem \<Rightarrow> string \<Rightarrow> filesystem \<times> response" where
  \<comment> \<open>\<open>@app.get("/vitals/{patient_id}/pdf")\<close>\<close>
  "route_get_vitals_pdf L now now' db fs pid =
     (case get_vitals_pdf L now now' db fs pid of (fs', r) \<Rightarrow> (fs', endpoint 200 r))"

subsection \<open>Reading a rendered page\<close>

text \<open>
  The row of a label is what is drawn in the value column at the height where the label
  is drawn in the label column.
\<close>

fun label_ys :: "string \<Rightarrow> canvas \<Rightarrow> real list" where
  "label_ys l [] = []"
| "label_ys l (DrawString x y t # c) =
     (if x = 50 \<and> t = l @ '':'' then y # label_ys l c else label_ys l c)"
| "label_ys l (p # c) = label_ys l c"

fun texts_at :: "real \<Rightarrow> real \<Rightarrow> canvas \<Rightarrow> string list" where
  "texts_at x y [] = []"
| "texts_at x y (DrawString x' y' t # c) =
     (if x' = x \<and> y' = y then t # texts_at x y c else texts_at x y c)"
| "texts_at x y (p # c) = texts_at x y c"

definition row_value :: "canvas \<Rightarrow> string \<Rightarrow> string list" where
  "row_value c l = concat (map (\<lambda>y. texts_at 210 y c) (label_ys l c))"

subsection \<open>Specification vocabulary\<close>

text \<open>Newest first: each document's sort value is at least that of every later one.\<close>

definition desc :: "string \<Rightarrow> document \<Rightarrow> document \<Rightarrow> bool" where
  "desc k a b = bson_le (field k b) (field k a)"


text \<open>
  The databases the service can build: it starts empty, and \<open>post_vitals\<close> is its only
  write.
\<close>

inductive reachable :: "database \<Rightarrow> bool" where
  empty: "reachable \<lparr>vitals = []\<rparr>"
| post: "reachable db \<Longrightarrow> reachable (fst (post_vitals now oid db v))"

text \<open>
  A record is storable when the driver can encode its document. Created at clock
  \<open>now\<close>, a storable record comes back from the collection as \<open>stored now\<close> of it:
  with the clock for a missing timestamp, and with the timestamp in whole milliseconds.
\<close>

definition storable :: "Vitals \<Rightarrow> bool" where
  "storable v = bson_ok (PyDict (Vitals_dict v))"

definition stored :: "datetime \<Rightarrow> Vitals \<Rightarrow> Vitals" where
  "stored now v =
     v\<lparr>timestamp := Some (to_millis (case timestamp v of None \<Rightarrow> now | Some t \<Rightarrow> t))\<rparr>"

text \<open>
  The path of the report of a record with timestamp \<open>t\<close>, whether a file can be written
  there, and what the PDF route answers once it has reconstructed the record \<open>v\<close>.
\<close>

definition report_path :: "pylib \<Rightarrow> string \<Rightarrow> datetime \<Rightarrow> string" where
  "report_path L pid t = path_join REPORTS_DIR (pid @ ''_'' @ strftime L t @ ''.pdf'')"

definition writable :: "filesystem \<Rightarrow> string \<Rightarrow> bool" where
  "writable fs path =
     (CHR 0x00 \<notin> set path \<and> length (basename path) \<le> 255 \<and> dirname path \<in> dirs fs)"

definition pdf_answer :: "pylib \<Rightarrow> datetime \<Rightarrow> filesystem \<Rightarrow> string \<Rightarrow> Vitals \<Rightarrow> filesystem \<times> response" where
  "pdf_answer L now' fs pid v =
     (case build_vitals_pdf L now' fs pid v of
        Inl e \<Rightarrow> (fs, endpoint 200 (Inl e))
      | Inr (fs', p) \<Rightarrow> (fs', FileResponse p ''application/pdf'' (basename p)))"

text \<open>
  Sample inputs for evaluating the handlers. The sample library prints a datetime as its
  number of microseconds and parses only that form of the epoch; the sample record is
  the body \<open>{"patient_id": "p1", "heart_rate": 72}\<close>; the sample file system has the
  reports directory and no file.
\<close>

definition sample_lib :: pylib where
  "sample_lib =
     \<lparr>float_str = (\<lambda>x. if x = 36.6 then ''36.6'' else ''0.0''),
      isoformat = str_int,
      strftime = str_int,
      fromisoformat = (\<lambda>s. if s = ''0'' then Some 0 else None)\<rparr>"

definition sample_vitals :: Vitals where
  "sample_vitals =
     \<lparr>patient_id = ''p1'', patient_name = None, timestamp = None, heart_rate = Some 72,
      blood_pressure = None, respiratory_rate = None, temperature_c = None,
      oxygen_saturation = None, notes' = None\<rparr>"

definition sample_db :: database where
  \<comment> \<open>the sample body posted twice, 5 and 9 milliseconds after the epoch\<close>
  "sample_db =
     fst (post_vitals 9000 2 (fst (post_vitals 5000 1 \<lparr>vitals = []\<rparr> sample_vitals))
       sample_vitals)"

definition sample_fs :: filesystem where
  "sample_fs = \<lparr>files = Map.empty, dirs = {''reports''}\<rparr>"

definition long_id :: string where
  \<comment> \<open>a patient id of 300 characters\<close>
  "long_id = replicate 300 (CHR ''a'')"

definition long_db :: database where
  \<comment> \<open>the sample body posted once for that patient\<close>
  "long_db = fst (post_vitals 5000 1 \<lparr>vitals = []\<rparr> (sample_vitals\<lparr>patient_id := long_id\<rparr>))"

section \<open>Properties\<close>

subsection \<open>Sorting and the newest document\<close>

lemma bson_le_total: "bson_le a b \<or> bson_le b a"
  by (cases a; cases b) auto

lemma bson_le_trans: "bson_le a b \<Longrightarrow> bson_le b c \<Longrightarrow> bson_le a c"
  by (cases a; cases b; cases c) auto

lemma mset_insert_desc: "mset (insert_desc k x xs) = add_mset x (mset xs)"
  by (induction xs) auto

lemma mset_sort_desc: "mset (sort_desc k xs) = mset xs"
  by (induction xs) (auto simp: mset_insert_desc)

lemma set_sort_desc: "set (sort_desc k xs) = set xs"
  by (metis mset_sort_desc set_mset_mset)

lemma set_insert_desc: "set (insert_desc k x xs) = insert x (set xs)"
  by (metis mset_insert_desc set_mset_mset set_mset_add_mset_insert)

lemma sorted_insert_desc:
  "sorted_wrt (desc k) xs \<Longrightarrow> sorted_wrt (desc k) (insert_desc k x xs)"
proof (induction xs)
  case Nil
  then show ?case by simp
next
  case (Cons y ys)
  show ?case
  proof (cases "bson_le (field k y) (field k x)")
    case True
    then have "\<forall>z\<in>set ys. desc k x z"
      using Cons.prems by (auto simp: desc_def intro: bson_le_trans)
    with True Cons.prems show ?thesis by (simp add: desc_def)
  next
    case False
    then have "desc k y x" using bson_le_total by (auto simp: desc_def)
    with False Cons show ?thesis by (auto simp: set_insert_desc)
  qed
qed

lemma sorted_sort_desc: "sorted_wrt (desc k) (sort_desc k xs)"
  by (induction xs) (auto simp: sorted_insert_desc)

lemma find_one_None: "find_one coll pid = None \<longleftrightarrow> find_docs coll pid = []"
  by (metis (no_types, lifting) find_one_def list.case_eq_if option.distinct(1) set_sort_desc set_empty)

lemma find_one_Some:
  assumes "find_one coll pid = Some d"
  shows "d \<in> set (find_docs coll pid)"
    and "\<forall>e \<in> set (find_docs coll pid). bson_le (field ''timestamp'' e) (field ''timestamp'' d)"
proof -
  from assms obtain ds where eq: "sort_desc ''timestamp'' (find_docs coll pid) = d # ds"
    by (auto simp: find_one_def split: list.splits)
  have "d \<in> set (sort_desc ''timestamp'' (find_docs coll pid))" by (simp add: eq)
  then show "d \<in> set (find_docs coll pid)" by (simp add: set_sort_desc)
  have s: "sorted_wrt (desc ''timestamp'') (d # ds)"
    using sorted_sort_desc [of "''timestamp''" "find_docs coll pid"] by (simp add: eq)
  show "\<forall>e \<in> set (find_docs coll pid). bson_le (field ''timestamp'' e) (field ''timestamp'' d)"
  proof
    fix e assume "e \<in> set (find_docs coll pid)"
    then have "e \<in> set (d # ds)" using eq set_sort_desc by metis
    then show "bson_le (field ''timestamp'' e) (field ''timestamp'' d)"
      using s bson_le_total [of "field ''timestamp'' d" "field ''timestamp'' d"]
      by (auto simp: desc_def)
  qed
qed

lemma validate_bp_dict: "validate_opt_bp (Some (py_opt (PyDict \<circ> BloodPressure_dict) b)) = Inr b"
  by (cases b; cases "systolic (the b)"; cases "diastolic (the b)")
     (simp_all add: py_opt_def BloodPressure_dict_def BloodPressure_validate_def and_then_def)

lemma validate_str_dict [simp]: "validate_opt_str (Some (py_opt PyStr s)) = Inr s"
  by (cases s) (simp_all add: py_opt_def)

lemma validate_int_dict [simp]: "validate_opt_int (Some (py_opt PyInt i)) = Inr i"
  by (cases i) (simp_all add: py_opt_def)

lemma validate_float_dict [simp]: "validate_opt_float (Some (py_opt PyFloat x)) = Inr x"
  by (cases x) (simp_all add: py_opt_def)

lemma validate_datetime_dict [simp]: "validate_opt_datetime (Some (py_opt PyDatetime t)) = Inr t"
  by (cases t) (simp_all add: py_opt_def)

lemma Vitals_validate_dict: "Vitals_validate (Vitals_dict v) = Inr v"
  by (simp add: Vitals_validate_def Vitals_dict_def and_then_def validate_bp_dict)

subsection \<open>The rows of the page\<close>

lemmas page_defs =
  row_value_def vitals_page_def draw_row_def A4_def mm_def inch_def temperature_label_def Let_def

lemma row_heart_rate:
  "row_value (vitals_page L pid v) ''Heart Rate (bpm)'' =
     [str_scalar L (py_or (map_option SInt (heart_rate v)) (SStr ''N/A''))]"
  by (simp add: page_defs)

lemma row_blood_pressure:
  "row_value (vitals_page L pid v) ''Blood Pressure'' =
     [case blood_pressure v of
        None \<Rightarrow> ''N/A''
      | Some bp \<Rightarrow> format_opt_int (systolic bp) @ ''/'' @ format_opt_int (diastolic bp) @ '' mmHg'']"
  by (simp add: page_defs)

lemma row_respiratory_rate:
  "row_value (vitals_page L pid v) ''Respiratory Rate (breaths/min)'' =
     [str_scalar L (py_or (map_option SInt (respiratory_rate v)) (SStr ''N/A''))]"
  by (simp add: page_defs)

lemma row_temperature:
  "row_value (vitals_page L pid v) temperature_label =
     [str_scalar L (py_or (map_option SFloat (temperature_c v)) (SStr ''N/A''))]"
  by (simp add: page_defs)

lemma row_oxygen_saturation:
  "row_value (vitals_page L pid v) ''Oxygen Saturation (%)'' =
     [str_scalar L (py_or (map_option SInt (oxygen_saturation v)) (SStr ''N/A''))]"
  by (simp add: page_defs)

lemma row_notes:
  "row_value (vitals_page L pid v) ''Notes'' =
     [str_scalar L (py_or (map_option SStr (notes' v)) (SStr ''-''))]"
  by (simp add: page_defs)

lemma str_int_72: "str_int 72 = ''72''"
  by (simp add: str_int_def str_nat.simps digit_char_def)

lemma str_int_0: "str_int 0 = ''0''"
  by (simp add: str_int_def str_nat.simps digit_char_def)

text \<open>
  What \<open>x or "N/A"\<close> draws for an optional number: the number, unless it is absent or
  zero.
\<close>

lemma heart_rate_row:
  "row_value (vitals_page L pid v) ''Heart Rate (bpm)'' =
     [case heart_rate v of
        None \<Rightarrow> ''N/A''
      | Some n \<Rightarrow> if n = 0 then ''N/A'' else str_int n]"
  by (cases "heart_rate v") (simp_all add: row_heart_rate)

lemma notes_row:
  "row_value (vitals_page L pid v) ''Notes'' =
     [case notes' v of
        None \<Rightarrow> ''-''
      | Some n \<Rightarrow> if n = [] then ''-'' else n]"
  by (cases "notes' v") (simp_all add: row_notes)

text \<open>
  C2. The specification says that a vital sign that is present is drawn as its value, and "N/A" is drawn
  only when the field is absent. The page for the record of the sample body with
  \<open>heart_rate\<close> 0 has "N/A" in its heart-rate row, not "0": \<open>x or "N/A"\<close> takes a
  zero for an absent value. With \<open>heart_rate\<close> 72 the row reads "72".
\<close>

theorem zero_heart_rate_reads_NA:
  "row_value (vitals_page L ''p1'' (sample_vitals\<lparr>heart_rate := Some 0\<rparr>)) ''Heart Rate (bpm)'' = [''N/A'']
   \<and> row_value (vitals_page L ''p1'' (sample_vitals\<lparr>heart_rate := Some 0\<rparr>)) ''Heart Rate (bpm)'' \<noteq> [str_int 0]
   \<and> row_value (vitals_page L ''p1'' sample_vitals) ''Heart Rate (bpm)'' = [''72'']"
  by (simp add: row_heart_rate sample_vitals_def str_int_72 str_int_0)

text \<open>
  C9. When the blood-pressure object is present the row is always
  "\<open>systolic\<close>/\<open>diastolic\<close> mmHg", an absent component printed as \<open>None\<close>; the row is
  "N/A" exactly when the object itself is absent.
\<close>

theorem blood_pressure_row:
  "(\<forall>bp. blood_pressure v = Some bp \<longrightarrow>
       row_value (vitals_page L pid v) ''Blood Pressure'' =
         [format_opt_int (systolic bp) @ ''/'' @ format_opt_int (diastolic bp) @ '' mmHg''])
   \<and> format_opt_int None = ''None''
   \<and> (row_value (vitals_page L pid v) ''Blood Pressure'' = [''N/A''] \<longleftrightarrow> blood_pressure v = None)"
proof -
  have ne: "format_opt_int a @ ''/'' @ format_opt_int b @ '' mmHg'' \<noteq> ''N/A''" for a b
  proof
    assume "format_opt_int a @ ''/'' @ format_opt_int b @ '' mmHg'' = ''N/A''"
    then have "length (format_opt_int a @ ''/'' @ format_opt_int b @ '' mmHg'') = length ''N/A''"
      by (rule arg_cong)
    then show False by simp
  qed
  show ?thesis
    by (cases "blood_pressure v") (simp_all add: row_blood_pressure format_opt_int_def ne)
qed

theorem blood_pressure_row_witness:
  "row_value (vitals_page sample_lib ''p1''
      (sample_vitals\<lparr>blood_pressure := Some \<lparr>systolic = None, diastolic = None\<rparr>\<rparr>))
      ''Blood Pressure'' = [''None/None mmHg'']
   \<and> row_value (vitals_page sample_lib ''p1''
      (sample_vitals\<lparr>blood_pressure := Some \<lparr>systolic = Some 72, diastolic = None\<rparr>\<rparr>))
      ''Blood Pressure'' = [''72/None mmHg'']
   \<and> row_value (vitals_page sample_lib ''p1'' sample_vitals) ''Blood Pressure'' = [''N/A'']"
  using blood_pressure_row [of "sample_vitals\<lparr>blood_pressure := Some \<lparr>systolic = None, diastolic = None\<rparr>\<rparr>" sample_lib "''p1''"]
    blood_pressure_row [of "sample_vitals\<lparr>blood_pressure := Some \<lparr>systolic = Some 72, diastolic = None\<rparr>\<rparr>" sample_lib "''p1''"]
    blood_pressure_row [of sample_vitals sample_lib "''p1''"]
  by (simp add: sample_vitals_def format_opt_int_def str_int_72)

subsection \<open>Creating a reading\<close>

lemma bson_Vitals_dict:
  "map (map_prod id bson) (Vitals_dict v) =
     Vitals_dict (v\<lparr>timestamp := map_option to_millis (timestamp v)\<rparr>)"
  by (cases "timestamp v"; cases "blood_pressure v")
     (simp_all add: Vitals_dict_def py_opt_def BloodPressure_dict_def split: option.split)

lemma storable_timestamp [simp]: "storable (v\<lparr>timestamp := t\<rparr>) = storable v"
  by (cases t; cases "timestamp v") (simp_all add: storable_def Vitals_dict_def py_opt_def)

lemma storable_iff:
  "storable v \<longleftrightarrow>
     (\<forall>i. heart_rate v = Some i \<longrightarrow> int64 i) \<and>
     (\<forall>i. respiratory_rate v = Some i \<longrightarrow> int64 i) \<and>
     (\<forall>i. oxygen_saturation v = Some i \<longrightarrow> int64 i) \<and>
     (\<forall>bp i. blood_pressure v = Some bp \<longrightarrow> systolic bp = Some i \<longrightarrow> int64 i) \<and>
     (\<forall>bp i. blood_pressure v = Some bp \<longrightarrow> diastolic bp = Some i \<longrightarrow> int64 i)"
  by (auto simp: storable_def Vitals_dict_def py_opt_def BloodPressure_dict_def split: option.splits)

lemma bson_ok_Vitals_dict:
  "list_all snd (map (map_prod id bson_ok) (Vitals_dict v)) = storable v"
  by (simp add: storable_def)

lemma post_vitals_eq:
  "post_vitals now oid db v =
     (if storable v
      then (db\<lparr>vitals := vitals db @ [(oid, Vitals_dict (stored now v))]\<rparr>,
            Inr (Resp (JSONResponse 200 (JObject
              [(''message'', PyStr ''Vitals saved''),
               (''patient_id'', PyStr (patient_id v)),
               (''id'', PyStr (str_oid oid))]))))
      else (db, Inl OverflowError))"
proof (cases "timestamp v")
  case None
  then show ?thesis
    by (simp add: post_vitals_def insert_one_def Let_def bson_Vitals_dict stored_def
        bson_ok_Vitals_dict)
next
  case (Some t)
  then show ?thesis
    by (simp add: post_vitals_def insert_one_def Let_def bson_Vitals_dict stored_def
        bson_ok_Vitals_dict)
qed

lemma storable_sample: "storable sample_vitals"
  by (simp add: storable_iff sample_vitals_def int64_def)

lemma Vitals_dict_keys:
  "map fst (Vitals_dict v) =
     [''patient_id'', ''patient_name'', ''timestamp'', ''heart_rate'', ''blood_pressure'',
      ''respiratory_rate'', ''temperature_c'', ''oxygen_saturation'', ''notes'']"
  by (simp add: Vitals_dict_def)

lemma Vitals_dict_timestamp:
  "map_of (Vitals_dict v) ''timestamp'' = Some (py_opt PyDatetime (timestamp v))"
  by (simp add: Vitals_dict_def)

lemma Vitals_dict_patient_id:
  "map_of (Vitals_dict v) ''patient_id'' = Some (PyStr (patient_id v))"
  by (simp add: Vitals_dict_def)

lemma field_timestamp_dict:
  "field ''timestamp'' (oid, Vitals_dict v) = py_opt PyDatetime (timestamp v)"
  by (simp add: field_def dict_get_def Vitals_dict_timestamp)

lemma matches_dict: "matches pid (oid, Vitals_dict v) \<longleftrightarrow> patient_id v = pid"
  by (simp add: matches_def Vitals_dict_patient_id)

lemma stored_sample:
  "stored t sample_vitals = sample_vitals\<lparr>timestamp := Some (to_millis t)\<rparr>"
  by (simp add: stored_def sample_vitals_def)

lemma sample_db_vitals:
  "vitals sample_db =
     [(1, Vitals_dict (sample_vitals\<lparr>timestamp := Some 5000\<rparr>)),
      (2, Vitals_dict (sample_vitals\<lparr>timestamp := Some 9000\<rparr>))]"
  by (simp add: sample_db_def post_vitals_eq storable_sample stored_sample to_millis_def)

lemma not_storable_sample: "\<not> storable (sample_vitals\<lparr>heart_rate := Some (2 ^ 63)\<rparr>)"
  by (simp add: storable_iff int64_def)

text \<open>
  C1. The specification says that a well-formed create request is answered with status
  201 and a body with the keys \<open>message\<close>, \<open>patient_id\<close> and \<open>id\<close>. The body is as
  specified, \<open>id\<close> being the string form of the inserted id, but the status is 200: the
  handler returns a response object of its own, which the framework sends unchanged, so
  the 201 of the decorator is never applied. Evaluated on the sample body.
\<close>

theorem create_reading_status_200:
  "snd (route_post_vitals now oid db sample_vitals) =
     JSONResponse 200 (JObject
       [(''message'', PyStr ''Vitals saved''),
        (''patient_id'', PyStr ''p1''),
        (''id'', PyStr (str_oid oid))])
   \<and> status (snd (route_post_vitals now oid db sample_vitals)) \<noteq> 201"
  by (simp add: route_post_vitals_def post_vitals_eq storable_sample) (simp add: sample_vitals_def)

text \<open>
  C10. Every document that \<open>post_vitals\<close> stores has exactly the nine keys of the record,
  in declaration order, and every optional field that the request left out is stored as
  an explicit null. (A record that the driver cannot encode stores no document.)
\<close>

theorem stored_document_has_all_fields:
  "(storable v \<longrightarrow>
      (\<exists>doc. vitals (fst (post_vitals now oid db v)) = vitals db @ [(oid, doc)]
         \<and> map fst doc =
             [''patient_id'', ''patient_name'', ''timestamp'', ''heart_rate'', ''blood_pressure'',
              ''respiratory_rate'', ''temperature_c'', ''oxygen_saturation'', ''notes'']
         \<and> (patient_name v = None \<longrightarrow> map_of doc ''patient_name'' = Some PyNone)
         \<and> (heart_rate v = None \<longrightarrow> map_of doc ''heart_rate'' = Some PyNone)
         \<and> (blood_pressure v = None \<longrightarrow> map_of doc ''blood_pressure'' = Some PyNone)
         \<and> (respiratory_rate v = None \<longrightarrow> map_of doc ''respiratory_rate'' = Some PyNone)
         \<and> (temperature_c v = None \<longrightarrow> map_of doc ''temperature_c'' = Some PyNone)
         \<and> (oxygen_saturation v = None \<longrightarrow> map_of doc ''oxygen_saturation'' = Some PyNone)
         \<and> (notes' v = None \<longrightarrow> map_of doc ''notes'' = Some PyNone)))
   \<and> (\<not> storable v \<longrightarrow> vitals (fst (post_vitals now oid db v)) = vitals db)"
  by (simp add: post_vitals_eq Vitals_dict_keys) (simp add: Vitals_dict_def py_opt_def stored_def)

theorem stored_document_has_all_fields_witness:
  "(\<exists>doc. vitals (fst (post_vitals 5000 1 \<lparr>vitals = []\<rparr> (sample_vitals\<lparr>heart_rate := None\<rparr>)))
         = [(1, doc)]
     \<and> map fst doc =
         [''patient_id'', ''patient_name'', ''timestamp'', ''heart_rate'', ''blood_pressure'',
          ''respiratory_rate'', ''temperature_c'', ''oxygen_saturation'', ''notes'']
     \<and> map_of doc ''patient_name'' = Some PyNone
     \<and> map_of doc ''heart_rate'' = Some PyNone
     \<and> map_of doc ''blood_pressure'' = Some PyNone
     \<and> map_of doc ''respiratory_rate'' = Some PyNone
     \<and> map_of doc ''temperature_c'' = Some PyNone
     \<and> map_of doc ''oxygen_saturation'' = Some PyNone
     \<and> map_of doc ''notes'' = Some PyNone)
   \<and> vitals (fst (post_vitals 5000 1 \<lparr>vitals = []\<rparr> (sample_vitals\<lparr>heart_rate := Some (2 ^ 63)\<rparr>)))
       = []"
proof -
  have s: "storable (sample_vitals\<lparr>heart_rate := None\<rparr>)"
    by (simp add: storable_iff sample_vitals_def)
  show ?thesis
    using s not_storable_sample
      stored_document_has_all_fields
        [where v = "sample_vitals\<lparr>heart_rate := None\<rparr>" and now = 5000 and oid = 1
           and db = "\<lparr>vitals = []\<rparr>"]
      stored_document_has_all_fields
        [where v = "sample_vitals\<lparr>heart_rate := Some (2 ^ 63)\<rparr>" and now = 5000 and oid = 1
           and db = "\<lparr>vitals = []\<rparr>"]
    by (simp add: sample_vitals_def)
qed

subsection \<open>Listing the readings\<close>

lemma sort_desc_eq_Nil [simp]: "sort_desc k xs = [] \<longleftrightarrow> xs = []"
  by (metis set_sort_desc set_empty)

lemma length_sort_desc [simp]: "length (sort_desc k xs) = length xs"
  by (metis mset_sort_desc size_mset)

lemma get_vitals_eq:
  "get_vitals L db pid =
     (if find_docs (vitals db) pid = [] then Inl (HTTPException 404 ''No vitals for that patient'')
      else Inr (Val (JArray (map (json_doc L) (sort_desc ''timestamp'' (find_docs (vitals db) pid))))))"
  by (simp add: get_vitals_def Let_def)

lemma find_docs_empty: "find_docs coll pid = [] \<longleftrightarrow> \<not> (\<exists>d\<in>set coll. matches pid d)"
  by (auto simp: find_docs_def filter_empty_conv)

lemma find_docs_sample_db: "find_docs (vitals sample_db) ''p1'' = vitals sample_db"
  by (simp add: find_docs_def sample_db_vitals matches_dict) (simp add: sample_vitals_def)

lemma find_docs_sample_db_unknown: "find_docs (vitals sample_db) ''unknown_patient'' = []"
  by (simp add: find_docs_def sample_db_vitals matches_dict) (simp add: sample_vitals_def)

text \<open>
  C4. Listing answers 404 when no stored document belongs to the patient, and otherwise
  answers 200 with a non-empty array, one entry for each of the patient's documents.
\<close>

theorem list_readings_404_iff_no_records:
  "(\<not> (\<exists>d\<in>set (vitals db). matches pid d) \<longrightarrow>
      route_get_vitals L db pid =
        JSONResponse 404 (JObject [(''detail'', PyStr ''No vitals for that patient'')]))
   \<and> ((\<exists>d\<in>set (vitals db). matches pid d) \<longrightarrow>
      (\<exists>docs. route_get_vitals L db pid = JSONResponse 200 (JArray docs) \<and> docs \<noteq> []
         \<and> length docs = length (filter (matches pid) (vitals db))))"
proof (cases "find_docs (vitals db) pid = []")
  case True
  then show ?thesis
    using find_docs_empty [of "vitals db" pid] by (simp add: route_get_vitals_def get_vitals_eq)
next
  case False
  then show ?thesis
    using find_docs_empty [of "vitals db" pid]
    by (simp add: route_get_vitals_def get_vitals_eq) (simp add: find_docs_def)
qed

theorem list_readings_404_iff_no_records_witness:
  "route_get_vitals sample_lib sample_db ''unknown_patient'' =
      JSONResponse 404 (JObject [(''detail'', PyStr ''No vitals for that patient'')])
   \<and> (\<exists>docs. route_get_vitals sample_lib sample_db ''p1''
          = JSONResponse 200 (JArray docs) \<and> docs \<noteq> [] \<and> length docs = 2)"
proof -
  have a: "\<not> (\<exists>d\<in>set (vitals sample_db). matches ''unknown_patient'' d)"
    by (simp add: sample_db_vitals matches_dict) (simp add: sample_vitals_def)
  have b: "\<exists>d\<in>set (vitals sample_db). matches ''p1'' d"
    by (simp add: sample_db_vitals matches_dict) (simp add: sample_vitals_def)
  have l: "length (filter (matches ''p1'') (vitals sample_db)) = 2"
    using find_docs_sample_db by (simp add: find_docs_def sample_db_vitals)
  show ?thesis
    using a b l
      list_readings_404_iff_no_records [of sample_db "''unknown_patient''" sample_lib]
      list_readings_404_iff_no_records [of sample_db "''p1''" sample_lib]
    by simp
qed

subsection \<open>Stored documents and what a listing shows of them\<close>

lemma json_doc_timestamp:
  "map_of (snd d) ''timestamp'' = Some (PyDatetime t) \<Longrightarrow>
   map_of (json_doc L d) ''timestamp'' = Some (PyStr (isoformat L t))"
  by (simp add: json_doc_def dict_get_def dict_set_def update_conv')

lemma json_doc_id: "map_of (json_doc L d) ''_id'' = Some (PyStr (str_oid (fst d)))"
  by (simp add: json_doc_def)

lemma to_millis_bounds: "to_millis t \<le> t \<and> t < to_millis t + 1000"
  unfolding to_millis_def by presburger

lemma route_post_vitals_db:
  "storable v \<Longrightarrow>
   vitals (fst (route_post_vitals now oid db v)) = vitals db @ [(oid, Vitals_dict (stored now v))]"
  by (simp add: route_post_vitals_def post_vitals_eq)

text \<open>
  The stored timestamp is not the clock reading itself: a create at 123 milliseconds and
  456 microseconds past a second stores the instant at 123 milliseconds.
\<close>

theorem created_timestamp_counterexample:
  "timestamp sample_vitals = None
   \<and> field ''timestamp''
        (last (vitals (fst (route_post_vitals 1700000000123456 1 \<lparr>vitals = []\<rparr> sample_vitals))))
       = PyDatetime 1700000000123000
   \<and> field ''timestamp''
        (last (vitals (fst (route_post_vitals 1700000000123456 1 \<lparr>vitals = []\<rparr> sample_vitals))))
       \<noteq> PyDatetime 1700000000123456"
  by (simp add: route_post_vitals_db storable_sample stored_sample field_timestamp_dict
      py_opt_def to_millis_def) (simp add: sample_vitals_def)

text \<open>
  C3. When the body of a create request has no timestamp and the record can be encoded,
  the stored document's timestamp is not null: it is the server's clock during the
  call, \<open>now\<close>, cut to whole milliseconds, so less than a millisecond before \<open>now\<close>.
  Listing the patient's readings right afterwards succeeds and shows the new document (by
  its id) with that stored instant, in ISO format.
\<close>

theorem created_timestamp_is_clock_in_millis:
  assumes "timestamp v = None" and "storable v"
  shows "\<exists>doc. vitals (fst (route_post_vitals now oid db v)) = vitals db @ [(oid, doc)]
     \<and> map_of doc ''timestamp'' = Some (PyDatetime (to_millis now))
     \<and> to_millis now \<le> now \<and> now < to_millis now + 1000
     \<and> (\<exists>docs. route_get_vitals L (fst (route_post_vitals now oid db v)) (patient_id v)
                  = JSONResponse 200 (JArray docs)
          \<and> json_doc L (oid, doc) \<in> set docs
          \<and> map_of (json_doc L (oid, doc)) ''_id'' = Some (PyStr (str_oid oid))
          \<and> map_of (json_doc L (oid, doc)) ''timestamp''
              = Some (PyStr (isoformat L (to_millis now))))"
proof -
  let ?doc = "Vitals_dict (stored now v)"
  let ?db = "fst (route_post_vitals now oid db v)"
  have db: "vitals ?db = vitals db @ [(oid, ?doc)]"
    using assms(2) by (rule route_post_vitals_db)
  have ts: "map_of ?doc ''timestamp'' = Some (PyDatetime (to_millis now))"
    using assms(1) by (simp add: Vitals_dict_timestamp py_opt_def stored_def)
  have "patient_id (stored now v) = patient_id v" by (simp add: stored_def)
  then have m: "matches (patient_id v) (oid, ?doc)"
    by (simp add: matches_dict)
  then have mem: "(oid, ?doc) \<in> set (find_docs (vitals ?db) (patient_id v))"
    by (simp add: find_docs_def db)
  then have ne: "find_docs (vitals ?db) (patient_id v) \<noteq> []"
    by auto
  have "route_get_vitals L ?db (patient_id v) =
      JSONResponse 200 (JArray (map (json_doc L)
        (sort_desc ''timestamp'' (find_docs (vitals ?db) (patient_id v)))))"
    using ne by (simp add: route_get_vitals_def get_vitals_eq)
  moreover have "json_doc L (oid, ?doc) \<in>
      set (map (json_doc L) (sort_desc ''timestamp'' (find_docs (vitals ?db) (patient_id v))))"
    using mem by (simp add: set_sort_desc)
  moreover have "map_of (json_doc L (oid, ?doc)) ''timestamp''
      = Some (PyStr (isoformat L (to_millis now)))"
    using ts by (simp add: json_doc_timestamp)
  ultimately show ?thesis
    using db ts json_doc_id [of L "(oid, ?doc)"] to_millis_bounds [of now] by auto
qed

theorem created_timestamp_is_clock_in_millis_witness:
  "timestamp sample_vitals = None \<and> storable sample_vitals
   \<and> (\<exists>doc. vitals (fst (route_post_vitals 1700000000123456 1 \<lparr>vitals = []\<rparr> sample_vitals))
              = [(1, doc)]
     \<and> map_of doc ''timestamp'' = Some (PyDatetime 1700000000123000)
     \<and> (\<exists>docs. route_get_vitals sample_lib
                  (fst (route_post_vitals 1700000000123456 1 \<lparr>vitals = []\<rparr> sample_vitals)) ''p1''
                  = JSONResponse 200 (JArray docs)
          \<and> json_doc sample_lib (1, doc) \<in> set docs
          \<and> map_of (json_doc sample_lib (1, doc)) ''_id'' = Some (PyStr (str_oid 1))
          \<and> map_of (json_doc sample_lib (1, doc)) ''timestamp''
              = Some (PyStr (str_int 1700000000123000))))"
proof -
  have h: "timestamp sample_vitals = None" by (simp add: sample_vitals_def)
  have p: "patient_id sample_vitals = ''p1''" by (simp add: sample_vitals_def)
  have i: "isoformat sample_lib = str_int" by (simp add: sample_lib_def)
  have t: "to_millis 1700000000123456 = 1700000000123000" by (simp add: to_millis_def)
  show ?thesis
    using h storable_sample
      created_timestamp_is_clock_in_millis
        [OF h storable_sample, of 1700000000123456 1 "\<lparr>vitals = []\<rparr>" sample_lib]
    by (simp add: p i t)
qed




subsection \<open>Generating the PDF\<close>

lemma normalize_doc_dict: "normalize_doc L now (Vitals_dict v) = Vitals_dict v"
  by (cases "timestamp v") (simp_all add: normalize_doc_def dict_get_def Vitals_dict_timestamp py_opt_def)

lemma dict_set_timestamp:
  "dict_set (Vitals_dict v) ''timestamp'' (PyDatetime t) = Vitals_dict (v\<lparr>timestamp := Some t\<rparr>)"
  by (simp add: dict_set_def Vitals_dict_def py_opt_def)

lemma dict_set_timestamp_twice:
  "dict_set (dict_set (Vitals_dict v) ''timestamp'' a) ''timestamp'' b =
   dict_set (Vitals_dict v) ''timestamp'' b"
  by (simp add: dict_set_def Vitals_dict_def)

lemma dict_get_set_timestamp:
  "dict_get (dict_set (Vitals_dict v) ''timestamp'' a) ''timestamp'' = a"
  by (simp add: dict_get_def dict_set_def update_conv')

lemma Vitals_dict_inj: "Vitals_dict a = Vitals_dict b \<Longrightarrow> a = b"
  by (metis Vitals_validate_dict sum.inject(2))

lemma write_file_eq:
  "write_file fs p c =
     (if writable fs p then Inr (fs\<lparr>files := (files fs)(p \<mapsto> c)\<rparr>)
      else Inl (if CHR 0x00 \<in> set p then ValueError else OSError))"
  by (auto simp: write_file_def writable_def)

lemma build_vitals_pdf_eq:
  "timestamp v = Some t \<Longrightarrow>
   build_vitals_pdf L now' fs pid v =
     (if writable fs (report_path L pid t)
      then Inr (fs\<lparr>files := (files fs)(report_path L pid t \<mapsto> vitals_page L pid v)\<rparr>,
                report_path L pid t)
      else Inl (if CHR 0x00 \<in> set (report_path L pid t) then ValueError else OSError))"
  by (simp add: build_vitals_pdf_def Let_def write_file_eq report_path_def)

lemma pdf_answer_eq:
  "timestamp v = Some t \<Longrightarrow>
   pdf_answer L now' fs pid v =
     (if writable fs (report_path L pid t)
      then (fs\<lparr>files := (files fs)(report_path L pid t \<mapsto> vitals_page L pid v)\<rparr>,
            FileResponse (report_path L pid t) ''application/pdf''
              (basename (report_path L pid t)))
      else (fs, PlainTextResponse 500 ''Internal Server Error''))"
  by (simp add: pdf_answer_def build_vitals_pdf_eq)

lemma get_vitals_pdf_found:
  assumes "find_one (vitals db) pid = Some d"
    and "Vitals_validate (normalize_doc L now (snd d)) = Inr v"
  shows "route_get_vitals_pdf L now now' db fs pid = pdf_answer L now' fs pid v"
  using assms
  by (simp add: route_get_vitals_pdf_def get_vitals_pdf_def pdf_answer_def
      split: sum.split prod.split)

lemma get_vitals_pdf_none:
  assumes "find_docs (vitals db) pid = []"
  shows "route_get_vitals_pdf L now now' db fs pid =
           (fs, JSONResponse 404 (JObject [(''detail'', PyStr ''No vitals to make PDF'')]))"
  using assms find_one_None [of "vitals db" pid]
  by (simp add: route_get_vitals_pdf_def get_vitals_pdf_def)

lemma find_one_single: "matches pid d \<Longrightarrow> find_one [d] pid = Some d"
  by (simp add: find_one_def find_docs_def)

lemma reachable_docs:
  "reachable db \<Longrightarrow> \<forall>d\<in>set (vitals db). \<exists>v t. snd d = Vitals_dict v \<and> timestamp v = Some t"
proof (induction rule: reachable.induct)
  case empty
  then show ?case by simp
next
  case (post db now oid v)
  have "\<exists>t. timestamp (stored now v) = Some t" by (simp add: stored_def)
  with post.IH show ?case by (auto simp: post_vitals_eq)
qed

lemma reachable_sample_db: "reachable sample_db"
  unfolding sample_db_def by (intro reachable.intros)

lemma reachable_long_db: "reachable long_db"
  unfolding long_db_def by (intro reachable.intros)

lemma report_path_parts:
  assumes "CHR ''/'' \<notin> set pid" and "CHR ''/'' \<notin> set (strftime L t)"
  shows "report_path L pid t = ''reports/'' @ pid @ ''_'' @ strftime L t @ ''.pdf''"
    and "basename (report_path L pid t) = pid @ ''_'' @ strftime L t @ ''.pdf''"
    and "dirname (report_path L pid t) = ''reports''"
proof -
  let ?f = "pid @ ''_'' @ strftime L t @ ''.pdf''"
  have nf: "CHR ''/'' \<notin> set ?f" using assms by simp
  have "?f \<noteq> []" by simp
  then have "hd ?f \<in> set ?f" by (rule hd_in_set)
  with nf have h: "hd ?f \<noteq> CHR ''/''" by metis
  then show p: "report_path L pid t = ''reports/'' @ ?f"
    by (simp add: report_path_def path_join_def REPORTS_DIR_def)
  have r: "rev (''reports/'' @ ?f) = rev ?f @ ''/stroper''" by simp
  have a: "\<And>x. x \<in> set (rev ?f) \<Longrightarrow> x \<noteq> CHR ''/''" using nf by auto
  have "takeWhile (\<lambda>c. c \<noteq> CHR ''/'') (rev ?f @ ''/stroper'') = rev ?f"
    using takeWhile_append2 [of "rev ?f" "\<lambda>c. c \<noteq> CHR ''/''" "''/stroper''"] a by simp
  then show "basename (report_path L pid t) = ?f"
    unfolding basename_def p r by (metis rev_rev_ident)
  have "dropWhile (\<lambda>c. c \<noteq> CHR ''/'') (rev ?f @ ''/stroper'') = ''/stroper''"
    using dropWhile_append2 [of "rev ?f" "\<lambda>c. c \<noteq> CHR ''/''" "''/stroper''"] a by simp
  then show "dirname (report_path L pid t) = ''reports''"
    unfolding dirname_def p r by (simp add: Let_def)
qed

lemma writable_report_path:
  assumes "CHR ''/'' \<notin> set pid" and "CHR ''/'' \<notin> set (strftime L t)"
  shows "writable fs (report_path L pid t) \<longleftrightarrow>
     CHR 0x00 \<notin> set pid \<and> CHR 0x00 \<notin> set (strftime L t)
     \<and> length pid + length (strftime L t) + 5 \<le> 255 \<and> ''reports'' \<in> dirs fs"
  unfolding writable_def report_path_parts(2,3) [OF assms]
  by (auto simp: report_path_parts(1) [OF assms])

lemma str_int_5000: "str_int 5000 = ''5000''"
  by (simp add: str_int_def str_nat.simps digit_char_def)

lemma str_int_9000: "str_int 9000 = ''9000''"
  by (simp add: str_int_def str_nat.simps digit_char_def)

lemma long_db_vitals:
  "vitals long_db = [(1, Vitals_dict (sample_vitals\<lparr>patient_id := long_id, timestamp := Some 5000\<rparr>))]"
proof -
  have "storable (sample_vitals\<lparr>patient_id := long_id\<rparr>)"
    by (simp add: storable_iff sample_vitals_def int64_def)
  then show ?thesis
    by (simp add: long_db_def post_vitals_eq) (simp add: stored_def sample_vitals_def to_millis_def)
qed

lemma not_writable_long: "\<not> writable sample_fs (report_path sample_lib long_id 5000)"
proof -
  have s: "strftime sample_lib 5000 = ''5000''" by (simp add: sample_lib_def str_int_5000)
  have "CHR ''/'' \<notin> set long_id" by (simp add: long_id_def)
  moreover have "CHR ''/'' \<notin> set (strftime sample_lib 5000)" by (simp add: s)
  ultimately show ?thesis
    by (simp add: writable_report_path s) (simp add: long_id_def)
qed

lemma writable_sample: "writable sample_fs (report_path sample_lib ''p1'' 9000)"
proof -
  have s: "strftime sample_lib 9000 = ''9000''" by (simp add: sample_lib_def str_int_9000)
  have "CHR ''/'' \<notin> set ''p1''" by simp
  moreover have "CHR ''/'' \<notin> set (strftime sample_lib 9000)" by (simp add: s)
  ultimately show ?thesis
    by (simp add: writable_report_path s) (simp add: sample_fs_def)
qed

lemma report_path_sample: "report_path sample_lib ''p1'' 9000 = ''reports/p1_9000.pdf''"
  by (simp add: report_path_def path_join_def REPORTS_DIR_def sample_lib_def str_int_9000)

lemma basename_sample: "basename ''reports/p1_9000.pdf'' = ''p1_9000.pdf''"
  by (simp add: basename_def)

lemma find_one_long_db:
  "find_one (vitals long_db) long_id =
     Some (1, Vitals_dict (sample_vitals\<lparr>patient_id := long_id, timestamp := Some 5000\<rparr>))"
  by (simp add: long_db_vitals find_one_single matches_dict)

text \<open>
  A patient id of 300 characters is accepted by \<open>post_vitals\<close>, but the name of its report
  has more than 255 bytes, so the file cannot be written and the PDF route answers 500
  although the patient has a record.
\<close>

theorem pdf_long_id_counterexample:
  "find_docs (vitals long_db) long_id \<noteq> []
   \<and> route_get_vitals_pdf sample_lib 0 0 long_db sample_fs long_id =
       (sample_fs, PlainTextResponse 500 ''Internal Server Error'')"
proof -
  let ?w = "sample_vitals\<lparr>patient_id := long_id, timestamp := Some 5000\<rparr>"
  have "find_docs (vitals long_db) long_id \<noteq> []"
    using find_one_long_db find_one_None [of "vitals long_db" long_id] by simp
  moreover have "Vitals_validate (normalize_doc sample_lib 0 (snd (1::ObjectId, Vitals_dict ?w))) = Inr ?w"
    by (simp only: snd_conv normalize_doc_dict Vitals_validate_dict)
  from get_vitals_pdf_found [OF find_one_long_db this]
  have "route_get_vitals_pdf sample_lib 0 0 long_db sample_fs long_id =
      pdf_answer sample_lib 0 sample_fs long_id ?w" .
  moreover have "timestamp ?w = Some 5000" by simp
  ultimately show ?thesis
    using not_writable_long by (simp add: pdf_answer_eq)
qed

text \<open>
  C6. On every database the service can build, PDF generation answers 404 when no stored
  document belongs to the patient. Otherwise it renders a stored record of the patient
  whose timestamp is the maximum among the patient's records: when the report file of
  that record can be written, the answer is the file just written, whose page renders
  that record; when it cannot, the answer is 500 and no file is written.
\<close>

theorem pdf_of_newest_record:
  assumes "reachable db"
  shows "(\<not> (\<exists>d\<in>set (vitals db). matches pid d) \<longrightarrow>
           route_get_vitals_pdf L now now' db fs pid =
             (fs, JSONResponse 404 (JObject [(''detail'', PyStr ''No vitals to make PDF'')])))
   \<and> ((\<exists>d\<in>set (vitals db). matches pid d) \<longrightarrow>
         (\<exists>oid v t. (oid, Vitals_dict v) \<in> set (vitals db) \<and> patient_id v = pid
            \<and> timestamp v = Some t
            \<and> (\<forall>e\<in>set (vitals db). matches pid e \<longrightarrow>
                   (\<exists>u. field ''timestamp'' e = PyDatetime u \<and> u \<le> t))
            \<and> (writable fs (report_path L pid t) \<longrightarrow>
                  route_get_vitals_pdf L now now' db fs pid =
                    (fs\<lparr>files := (files fs)(report_path L pid t \<mapsto> vitals_page L pid v)\<rparr>,
                     FileResponse (report_path L pid t) ''application/pdf''
                       (basename (report_path L pid t))))
            \<and> (\<not> writable fs (report_path L pid t) \<longrightarrow>
                  route_get_vitals_pdf L now now' db fs pid =
                    (fs, PlainTextResponse 500 ''Internal Server Error''))))"
proof (cases "find_docs (vitals db) pid = []")
  case True
  then show ?thesis
    using get_vitals_pdf_none [OF True] find_docs_empty [of "vitals db" pid] by simp
next
  case False
  then obtain d where d: "find_one (vitals db) pid = Some d"
    using find_one_None [of "vitals db" pid] by (cases "find_one (vitals db) pid") auto
  have mem: "d \<in> set (find_docs (vitals db) pid)"
    and top: "\<forall>e\<in>set (find_docs (vitals db) pid).
        bson_le (field ''timestamp'' e) (field ''timestamp'' d)"
    using find_one_Some [OF d] by blast+
  from mem have din: "d \<in> set (vitals db)" and dm: "matches pid d"
    by (simp_all add: find_docs_def)
  from reachable_docs [OF assms] din obtain v t
    where v: "snd d = Vitals_dict v" and t: "timestamp v = Some t" by blast
  have d_eq: "d = (fst d, Vitals_dict v)" using v by (cases d) simp
  have pid: "patient_id v = pid"
    using dm d_eq matches_dict [of pid "fst d" v] by simp
  have fd: "field ''timestamp'' d = PyDatetime t"
    using d_eq field_timestamp_dict [of "fst d" v] t by (simp add: py_opt_def)
  have older: "\<exists>u. field ''timestamp'' e = PyDatetime u \<and> u \<le> t"
    if e: "e \<in> set (vitals db)" and em: "matches pid e" for e
  proof -
    from reachable_docs [OF assms] e obtain w u
      where w: "snd e = Vitals_dict w" and u: "timestamp w = Some u" by blast
    have "e = (fst e, Vitals_dict w)" using w by (cases e) simp
    then have fe: "field ''timestamp'' e = PyDatetime u"
      using field_timestamp_dict [of "fst e" w] u by (simp add: py_opt_def)
    from e em have "e \<in> set (find_docs (vitals db) pid)" by (simp add: find_docs_def)
    with top have "bson_le (field ''timestamp'' e) (field ''timestamp'' d)" by blast
    then have "u \<le> t" by (simp add: fe fd)
    with fe show ?thesis by simp
  qed
  have "Vitals_validate (normalize_doc L now (snd d)) = Inr v"
    by (simp add: v normalize_doc_dict Vitals_validate_dict)
  from get_vitals_pdf_found [OF d this]
  have p: "route_get_vitals_pdf L now now' db fs pid = pdf_answer L now' fs pid v" .
  have w1: "writable fs (report_path L pid t) \<longrightarrow>
      route_get_vitals_pdf L now now' db fs pid =
        (fs\<lparr>files := (files fs)(report_path L pid t \<mapsto> vitals_page L pid v)\<rparr>,
         FileResponse (report_path L pid t) ''application/pdf''
           (basename (report_path L pid t)))"
    by (simp add: p pdf_answer_eq [OF t])
  have w2: "\<not> writable fs (report_path L pid t) \<longrightarrow>
      route_get_vitals_pdf L now now' db fs pid =
        (fs, PlainTextResponse 500 ''Internal Server Error'')"
    by (simp add: p pdf_answer_eq [OF t])
  have "(fst d, Vitals_dict v) \<in> set (vitals db)" using din d_eq by simp
  with pid t older w1 w2 have
    "\<exists>oid v t. (oid, Vitals_dict v) \<in> set (vitals db) \<and> patient_id v = pid
        \<and> timestamp v = Some t
        \<and> (\<forall>e\<in>set (vitals db). matches pid e \<longrightarrow>
               (\<exists>u. field ''timestamp'' e = PyDatetime u \<and> u \<le> t))
        \<and> (writable fs (report_path L pid t) \<longrightarrow>
              route_get_vitals_pdf L now now' db fs pid =
                (fs\<lparr>files := (files fs)(report_path L pid t \<mapsto> vitals_page L pid v)\<rparr>,
                 FileResponse (report_path L pid t) ''application/pdf''
                   (basename (report_path L pid t))))
        \<and> (\<not> writable fs (report_path L pid t) \<longrightarrow>
              route_get_vitals_pdf L now now' db fs pid =
                (fs, PlainTextResponse 500 ''Internal Server Error''))"
    by blast
  then show ?thesis
    using False find_docs_empty [of "vitals db" pid] by simp
qed

theorem pdf_of_newest_record_witness:
  "reachable sample_db \<and> reachable long_db
   \<and> route_get_vitals_pdf sample_lib 0 0 sample_db sample_fs ''unknown_patient'' =
       (sample_fs, JSONResponse 404 (JObject [(''detail'', PyStr ''No vitals to make PDF'')]))
   \<and> route_get_vitals_pdf sample_lib 0 0 sample_db sample_fs ''p1'' =
       (sample_fs\<lparr>files := (files sample_fs)(''reports/p1_9000.pdf'' \<mapsto>
            vitals_page sample_lib ''p1'' (sample_vitals\<lparr>timestamp := Some 9000\<rparr>))\<rparr>,
        FileResponse ''reports/p1_9000.pdf'' ''application/pdf'' ''p1_9000.pdf'')
   \<and> route_get_vitals_pdf sample_lib 0 0 long_db sample_fs long_id =
       (sample_fs, PlainTextResponse 500 ''Internal Server Error'')"
proof -
  let ?s5 = "sample_vitals\<lparr>timestamp := Some 5000\<rparr>"
  let ?s9 = "sample_vitals\<lparr>timestamp := Some 9000\<rparr>"
  let ?lw = "sample_vitals\<lparr>patient_id := long_id, timestamp := Some 5000\<rparr>"
  have a: "\<exists>d\<in>set (vitals sample_db). matches ''p1'' d"
    by (simp add: sample_db_vitals matches_dict) (simp add: sample_vitals_def)
  have b: "\<not> (\<exists>d\<in>set (vitals sample_db). matches ''unknown_patient'' d)"
    by (simp add: sample_db_vitals matches_dict) (simp add: sample_vitals_def)
  have c: "\<exists>d\<in>set (vitals long_db). matches long_id d"
    by (simp add: long_db_vitals matches_dict)
  have r1: "route_get_vitals_pdf sample_lib 0 0 sample_db sample_fs ''unknown_patient'' =
       (sample_fs, JSONResponse 404 (JObject [(''detail'', PyStr ''No vitals to make PDF'')]))"
    using b pdf_of_newest_record
      [OF reachable_sample_db, of "''unknown_patient''" sample_lib 0 0 sample_fs]
    by blast
  from a pdf_of_newest_record [OF reachable_sample_db, of "''p1''" sample_lib 0 0 sample_fs]
  obtain oid v t where mem: "(oid, Vitals_dict v) \<in> set (vitals sample_db)"
    and t: "timestamp v = Some t"
    and mx: "\<forall>e\<in>set (vitals sample_db). matches ''p1'' e \<longrightarrow>
               (\<exists>u. field ''timestamp'' e = PyDatetime u \<and> u \<le> t)"
    and w: "writable sample_fs (report_path sample_lib ''p1'' t) \<longrightarrow>
              route_get_vitals_pdf sample_lib 0 0 sample_db sample_fs ''p1'' =
                (sample_fs\<lparr>files := (files sample_fs)(report_path sample_lib ''p1'' t \<mapsto>
                     vitals_page sample_lib ''p1'' v)\<rparr>,
                 FileResponse (report_path sample_lib ''p1'' t) ''application/pdf''
                   (basename (report_path sample_lib ''p1'' t)))"
    by blast
  from mem have "v = ?s5 \<or> v = ?s9"
    by (auto simp: sample_db_vitals dest: Vitals_dict_inj)
  moreover have "9000 \<le> t"
    using mx by (simp add: sample_db_vitals matches_dict field_timestamp_dict py_opt_def)
      (simp add: sample_vitals_def)
  ultimately have v: "v = ?s9" and t9: "t = 9000" using t by auto
  have r2: "route_get_vitals_pdf sample_lib 0 0 sample_db sample_fs ''p1'' =
       (sample_fs\<lparr>files := (files sample_fs)(''reports/p1_9000.pdf'' \<mapsto>
            vitals_page sample_lib ''p1'' ?s9)\<rparr>,
        FileResponse ''reports/p1_9000.pdf'' ''application/pdf'' ''p1_9000.pdf'')"
    using w writable_sample by (simp add: v t9 report_path_sample basename_sample)
  from c pdf_of_newest_record [OF reachable_long_db, of long_id sample_lib 0 0 sample_fs]
  obtain oid' v' t' where mem': "(oid', Vitals_dict v') \<in> set (vitals long_db)"
    and t': "timestamp v' = Some t'"
    and nw: "\<not> writable sample_fs (report_path sample_lib long_id t') \<longrightarrow>
              route_get_vitals_pdf sample_lib 0 0 long_db sample_fs long_id =
                (sample_fs, PlainTextResponse 500 ''Internal Server Error'')"
    by blast
  from mem' have "v' = ?lw" by (auto simp: long_db_vitals dest: Vitals_dict_inj)
  with t' have "t' = 5000" by simp
  with nw not_writable_long have r3:
    "route_get_vitals_pdf sample_lib 0 0 long_db sample_fs long_id =
       (sample_fs, PlainTextResponse 500 ''Internal Server Error'')" by simp
  show ?thesis
    using reachable_sample_db reachable_long_db r1 r2 r3 by simp
qed

lemma str_int_120: "str_int 120 = ''120''"
  by (simp add: str_int_def str_nat.simps digit_char_def)

lemma str_int_80: "str_int 80 = ''80''"
  by (simp add: str_int_def str_nat.simps digit_char_def)

lemma writable_sample_p1:
  assumes "str_int t = s" and "CHR ''/'' \<notin> set s" and "CHR 0x00 \<notin> set s" and "length s \<le> 200"
  shows "writable sample_fs (report_path sample_lib ''p1'' t)"
proof -
  have s: "strftime sample_lib t = s" using assms(1) by (simp add: sample_lib_def)
  have "CHR ''/'' \<notin> set ''p1''" by simp
  moreover have "CHR ''/'' \<notin> set (strftime sample_lib t)" using assms(2) by (simp add: s)
  ultimately show ?thesis
    using assms(3,4) by (simp add: writable_report_path s) (simp add: sample_fs_def)
qed

lemma backdated_db:
  "vitals (fst (route_post_vitals 20000 3 sample_db
      (sample_vitals\<lparr>timestamp := Some 1000,
         blood_pressure := Some \<lparr>systolic = Some 120, diastolic = Some 80\<rparr>\<rparr>))) =
     [(1, Vitals_dict (sample_vitals\<lparr>timestamp := Some 5000\<rparr>)),
      (2, Vitals_dict (sample_vitals\<lparr>timestamp := Some 9000\<rparr>)),
      (3, Vitals_dict (sample_vitals\<lparr>timestamp := Some 1000,
         blood_pressure := Some \<lparr>systolic = Some 120, diastolic = Some 80\<rparr>\<rparr>))]"
proof -
  have "storable (sample_vitals\<lparr>timestamp := Some 1000,
         blood_pressure := Some \<lparr>systolic = Some 120, diastolic = Some 80\<rparr>\<rparr>)"
    by (simp add: storable_iff int64_def) (simp add: sample_vitals_def)
  then show ?thesis
    by (simp add: route_post_vitals_db sample_db_vitals)
       (simp add: stored_def to_millis_def sample_vitals_def)
qed

lemma str_int_10000: "str_int 10000 = ''10000''"
  by (simp add: str_int_def str_nat.simps digit_char_def)

text \<open>
  The PDF route renders the patient's newest record, not the one created last: a record
  with blood pressure 120/80 that is created with a timestamp older than a stored record
  of the same patient leaves the blood-pressure row of the PDF at "N/A".
\<close>

theorem backdated_round_trip_counterexample:
  "route_get_vitals_pdf sample_lib 0 0
     (fst (route_post_vitals 20000 3 sample_db
        (sample_vitals\<lparr>timestamp := Some 1000,
           blood_pressure := Some \<lparr>systolic = Some 120, diastolic = Some 80\<rparr>\<rparr>)))
     sample_fs ''p1'' =
     (sample_fs\<lparr>files := (files sample_fs)(''reports/p1_9000.pdf'' \<mapsto>
          vitals_page sample_lib ''p1'' (sample_vitals\<lparr>timestamp := Some 9000\<rparr>))\<rparr>,
      FileResponse ''reports/p1_9000.pdf'' ''application/pdf'' ''p1_9000.pdf'')
   \<and> row_value (vitals_page sample_lib ''p1'' (sample_vitals\<lparr>timestamp := Some 9000\<rparr>))
        ''Blood Pressure'' = [''N/A'']
   \<and> row_value (vitals_page sample_lib ''p1'' (sample_vitals\<lparr>timestamp := Some 9000\<rparr>))
        ''Blood Pressure'' \<noteq> [''120/80 mmHg'']"
proof -
  let ?s9 = "sample_vitals\<lparr>timestamp := Some 9000\<rparr>"
  let ?db = "fst (route_post_vitals 20000 3 sample_db
        (sample_vitals\<lparr>timestamp := Some 1000,
           blood_pressure := Some \<lparr>systolic = Some 120, diastolic = Some 80\<rparr>\<rparr>))"
  have p: "patient_id sample_vitals = ''p1''" by (simp add: sample_vitals_def)
  have f: "find_one (vitals ?db) ''p1'' = Some (2, Vitals_dict ?s9)"
    by (simp add: backdated_db find_one_def find_docs_def matches_dict p
        field_timestamp_dict py_opt_def)
  have "Vitals_validate (normalize_doc sample_lib 0 (snd (2::ObjectId, Vitals_dict ?s9))) = Inr ?s9"
    by (simp only: snd_conv normalize_doc_dict Vitals_validate_dict)
  from get_vitals_pdf_found [OF f this]
  have "route_get_vitals_pdf sample_lib 0 0 ?db sample_fs ''p1'' =
      pdf_answer sample_lib 0 sample_fs ''p1'' ?s9" .
  moreover have "timestamp ?s9 = Some 9000" by simp
  ultimately have r: "route_get_vitals_pdf sample_lib 0 0 ?db sample_fs ''p1'' =
     (sample_fs\<lparr>files := (files sample_fs)(''reports/p1_9000.pdf'' \<mapsto>
          vitals_page sample_lib ''p1'' ?s9)\<rparr>,
      FileResponse ''reports/p1_9000.pdf'' ''application/pdf'' ''p1_9000.pdf'')"
    using writable_sample by (simp add: pdf_answer_eq report_path_sample basename_sample)
  have "blood_pressure ?s9 = None" by (simp add: sample_vitals_def)
  then have "row_value (vitals_page sample_lib ''p1'' ?s9) ''Blood Pressure'' = [''N/A'']"
    by (simp add: row_blood_pressure)
  with r show ?thesis by simp
qed

text \<open>
  C7. Round trip through storage and rendering: after a record is created that can be
  encoded and that is newer, by its stored timestamp, than every stored record of its
  patient, the PDF generated for the patient (its report file being writable) has the
  blood-pressure row "\<open>systolic\<close>/\<open>diastolic\<close> mmHg" when the record carries both
  values, and "N/A" when it carries no blood pressure.
\<close>

theorem blood_pressure_round_trip:
  assumes "storable v"
    and "\<forall>e\<in>set (vitals db). matches (patient_id v) e \<longrightarrow>
           (\<exists>u. field ''timestamp'' e = PyDatetime u
              \<and> u < to_millis (case timestamp v of None \<Rightarrow> now | Some s \<Rightarrow> s))"
    and "writable fs (report_path L (patient_id v)
           (to_millis (case timestamp v of None \<Rightarrow> now | Some s \<Rightarrow> s)))"
  shows "\<exists>p page.
     route_get_vitals_pdf L now1 now2 (fst (route_post_vitals now oid db v)) fs (patient_id v) =
       (fs\<lparr>files := (files fs)(p \<mapsto> page)\<rparr>, FileResponse p ''application/pdf'' (basename p))
     \<and> (\<forall>s d. blood_pressure v = Some \<lparr>systolic = Some s, diastolic = Some d\<rparr> \<longrightarrow>
            row_value page ''Blood Pressure'' = [str_int s @ ''/'' @ str_int d @ '' mmHg''])
     \<and> (blood_pressure v = None \<longrightarrow> row_value page ''Blood Pressure'' = [''N/A''])"
proof -
  define t where "t = to_millis (case timestamp v of None \<Rightarrow> now | Some s \<Rightarrow> s)"
  define w where "w = stored now v"
  let ?n = "(oid, Vitals_dict w)"
  let ?db = "fst (route_post_vitals now oid db v)"
  let ?pid = "patient_id v"
  have db: "vitals ?db = vitals db @ [?n]"
    using assms(1) by (simp add: route_post_vitals_db w_def)
  have tw: "timestamp w = Some t"
    by (simp add: w_def t_def stored_def)
  have pw: "patient_id w = patient_id v" and bp: "blood_pressure w = blood_pressure v"
    by (simp_all add: w_def stored_def)
  have fn: "field ''timestamp'' ?n = PyDatetime t"
    using tw field_timestamp_dict [of oid w] by (simp add: py_opt_def)
  have nm: "matches ?pid ?n"
    using matches_dict [of ?pid oid w] pw by simp
  then have nin: "?n \<in> set (find_docs (vitals ?db) ?pid)"
    by (simp add: find_docs_def db)
  then obtain d where d: "find_one (vitals ?db) ?pid = Some d"
    using find_one_None [of "vitals ?db" ?pid] by (cases "find_one (vitals ?db) ?pid") auto
  have mem: "d \<in> set (find_docs (vitals ?db) ?pid)"
    and top: "\<forall>e\<in>set (find_docs (vitals ?db) ?pid).
        bson_le (field ''timestamp'' e) (field ''timestamp'' d)"
    using find_one_Some [OF d] by blast+
  have le: "bson_le (PyDatetime t) (field ''timestamp'' d)"
    using top nin fn by metis
  have "d = ?n"
  proof (rule ccontr)
    assume "d \<noteq> ?n"
    from mem have "d \<in> set (vitals ?db)" and "matches ?pid d"
      by (simp_all add: find_docs_def)
    with \<open>d \<noteq> ?n\<close> have "d \<in> set (vitals db)" and "matches ?pid d"
      by (simp_all add: db)
    with assms(2) obtain u where "field ''timestamp'' d = PyDatetime u" and "u < t"
      unfolding t_def by blast
    with le show False by simp
  qed
  then have "Vitals_validate (normalize_doc L now1 (snd d)) = Inr w"
    by (simp only: snd_conv normalize_doc_dict Vitals_validate_dict)
  from get_vitals_pdf_found [OF d this]
  have "route_get_vitals_pdf L now1 now2 ?db fs ?pid = pdf_answer L now2 fs ?pid w" .
  then have p: "route_get_vitals_pdf L now1 now2 ?db fs ?pid =
      (fs\<lparr>files := (files fs)(report_path L ?pid t \<mapsto> vitals_page L ?pid w)\<rparr>,
       FileResponse (report_path L ?pid t) ''application/pdf'' (basename (report_path L ?pid t)))"
    using assms(3) by (simp add: pdf_answer_eq [OF tw] t_def)
  have rows: "(\<forall>s d. blood_pressure v = Some \<lparr>systolic = Some s, diastolic = Some d\<rparr> \<longrightarrow>
            row_value (vitals_page L ?pid w) ''Blood Pressure'' =
              [str_int s @ ''/'' @ str_int d @ '' mmHg''])
     \<and> (blood_pressure v = None \<longrightarrow>
            row_value (vitals_page L ?pid w) ''Blood Pressure'' = [''N/A''])"
    by (simp only: row_blood_pressure bp) (simp add: format_opt_int_def)
  show ?thesis
  proof (rule exI [of _ "report_path L ?pid t"], rule exI [of _ "vitals_page L ?pid w"])
    show "route_get_vitals_pdf L now1 now2 ?db fs ?pid =
        (fs\<lparr>files := (files fs)(report_path L ?pid t \<mapsto> vitals_page L ?pid w)\<rparr>,
         FileResponse (report_path L ?pid t) ''application/pdf'' (basename (report_path L ?pid t)))
      \<and> (\<forall>s d. blood_pressure v = Some \<lparr>systolic = Some s, diastolic = Some d\<rparr> \<longrightarrow>
            row_value (vitals_page L ?pid w) ''Blood Pressure'' =
              [str_int s @ ''/'' @ str_int d @ '' mmHg''])
      \<and> (blood_pressure v = None \<longrightarrow>
            row_value (vitals_page L ?pid w) ''Blood Pressure'' = [''N/A''])"
      using p rows by (rule conjI)
  qed
qed

theorem blood_pressure_round_trip_witness:
  "(\<exists>p page.
     route_get_vitals_pdf sample_lib 20000 21000
       (fst (route_post_vitals 10000 3 sample_db
          (sample_vitals\<lparr>blood_pressure := Some \<lparr>systolic = Some 120, diastolic = Some 80\<rparr>\<rparr>)))
       sample_fs ''p1'' =
       (sample_fs\<lparr>files := (files sample_fs)(p \<mapsto> page)\<rparr>,
        FileResponse p ''application/pdf'' (basename p))
     \<and> row_value page ''Blood Pressure'' = [''120/80 mmHg''])
   \<and> (\<exists>p page.
     route_get_vitals_pdf sample_lib 20000 21000
       (fst (route_post_vitals 10000 3 sample_db sample_vitals)) sample_fs ''p1'' =
       (sample_fs\<lparr>files := (files sample_fs)(p \<mapsto> page)\<rparr>,
        FileResponse p ''application/pdf'' (basename p))
     \<and> row_value page ''Blood Pressure'' = [''N/A''])"
proof -
  let ?v = "sample_vitals\<lparr>blood_pressure := Some \<lparr>systolic = Some 120, diastolic = Some 80\<rparr>\<rparr>"
  have tm: "to_millis 10000 = 10000" by (simp add: to_millis_def)
  have s1: "storable ?v" by (simp add: storable_iff int64_def) (simp add: sample_vitals_def)
  have o1: "\<forall>e\<in>set (vitals sample_db). matches (patient_id ?v) e \<longrightarrow>
           (\<exists>u. field ''timestamp'' e = PyDatetime u
              \<and> u < to_millis (case timestamp ?v of None \<Rightarrow> 10000 | Some s \<Rightarrow> s))"
    by (simp add: sample_db_vitals field_timestamp_dict py_opt_def)
       (simp add: sample_vitals_def tm)
  have o2: "\<forall>e\<in>set (vitals sample_db). matches (patient_id sample_vitals) e \<longrightarrow>
           (\<exists>u. field ''timestamp'' e = PyDatetime u
              \<and> u < to_millis (case timestamp sample_vitals of None \<Rightarrow> 10000 | Some s \<Rightarrow> s))"
    by (simp add: sample_db_vitals field_timestamp_dict py_opt_def)
       (simp add: sample_vitals_def tm)
  have wr: "writable sample_fs (report_path sample_lib ''p1'' 10000)"
    by (rule writable_sample_p1 [OF str_int_10000]) simp_all
  have w1: "writable sample_fs (report_path sample_lib (patient_id ?v)
           (to_millis (case timestamp ?v of None \<Rightarrow> 10000 | Some s \<Rightarrow> s)))"
    using wr by (simp add: sample_vitals_def tm)
  have w2: "writable sample_fs (report_path sample_lib (patient_id sample_vitals)
           (to_millis (case timestamp sample_vitals of None \<Rightarrow> 10000 | Some s \<Rightarrow> s)))"
    using wr by (simp add: sample_vitals_def tm)
  have p: "patient_id sample_vitals = ''p1''" "blood_pressure sample_vitals = None"
    by (simp_all add: sample_vitals_def)
  show ?thesis
    using blood_pressure_round_trip [OF s1 o1 w1, of 20000 21000 3]
      blood_pressure_round_trip [OF storable_sample o2 w2, of 20000 21000 3]
    by (simp add: p str_int_120 str_int_80)
qed

subsection \<open>Stored timestamps of either kind\<close>

lemma normalize_doc_date:
  "normalize_doc L now (dict_set (Vitals_dict v) ''timestamp'' (PyDatetime t)) =
   Vitals_dict (v\<lparr>timestamp := Some t\<rparr>)"
  by (simp only: dict_set_timestamp normalize_doc_dict)

lemma normalize_doc_str:
  "normalize_doc L now (dict_set (Vitals_dict v) ''timestamp'' (PyStr s)) =
   Vitals_dict (v\<lparr>timestamp := Some (case fromisoformat L s of Some t \<Rightarrow> t | None \<Rightarrow> now)\<rparr>)"
  by (simp add: normalize_doc_def dict_get_set_timestamp dict_set_timestamp_twice
      dict_set_timestamp split: option.split)

lemma find_one_raw:
  "find_one [(oid, dict_set (Vitals_dict v) ''timestamp'' ts)] (patient_id v) =
     Some (oid, dict_set (Vitals_dict v) ''timestamp'' ts)"
  by (simp add: find_one_def find_docs_def matches_def dict_set_def update_conv'
      Vitals_dict_patient_id)

lemma pdf_answer_writable:
  "writable fs (report_path L pid t) \<Longrightarrow>
   pdf_answer L now' fs pid (v\<lparr>timestamp := Some t\<rparr>) =
     (fs\<lparr>files := (files fs)(report_path L pid t \<mapsto> vitals_page L pid (v\<lparr>timestamp := Some t\<rparr>))\<rparr>,
      FileResponse (report_path L pid t) ''application/pdf'' (basename (report_path L pid t)))"
  by (simp add: pdf_answer_eq [of "v\<lparr>timestamp := Some t\<rparr>" t])

lemma str_int_7000: "str_int 7000 = ''7000''"
  by (simp add: str_int_def str_nat.simps digit_char_def)

lemma str_int_42000: "str_int 42000 = ''42000''"
  by (simp add: str_int_def str_nat.simps digit_char_def)

text \<open>
  C8. When the newest stored document of a patient is a record whose timestamp field
  holds the raw value \<open>ts\<close>, reconstructing the record does not fail on it: a date is
  used as it is, a string that \<open>fromisoformat\<close> parses becomes the parsed date, and a
  string it rejects becomes the clock reading \<open>now\<close>. In each case the route answers
  what building the PDF of the reconstructed record gives, which is the written file
  whenever the report file can be written.
\<close>

theorem stored_timestamp_never_raises:
  assumes "find_one (vitals db) pid = Some (oid, dict_set (Vitals_dict v) ''timestamp'' ts)"
  shows "(\<forall>t. ts = PyDatetime t \<longrightarrow>
            route_get_vitals_pdf L now now' db fs pid =
              pdf_answer L now' fs pid (v\<lparr>timestamp := Some t\<rparr>)
            \<and> (writable fs (report_path L pid t) \<longrightarrow>
                 route_get_vitals_pdf L now now' db fs pid =
                   (fs\<lparr>files := (files fs)(report_path L pid t \<mapsto>
                        vitals_page L pid (v\<lparr>timestamp := Some t\<rparr>))\<rparr>,
                    FileResponse (report_path L pid t) ''application/pdf''
                      (basename (report_path L pid t)))))
   \<and> (\<forall>s t. ts = PyStr s \<and> fromisoformat L s = Some t \<longrightarrow>
            route_get_vitals_pdf L now now' db fs pid =
              pdf_answer L now' fs pid (v\<lparr>timestamp := Some t\<rparr>)
            \<and> (writable fs (report_path L pid t) \<longrightarrow>
                 route_get_vitals_pdf L now now' db fs pid =
                   (fs\<lparr>files := (files fs)(report_path L pid t \<mapsto>
                        vitals_page L pid (v\<lparr>timestamp := Some t\<rparr>))\<rparr>,
                    FileResponse (report_path L pid t) ''application/pdf''
                      (basename (report_path L pid t)))))
   \<and> (\<forall>s. ts = PyStr s \<and> fromisoformat L s = None \<longrightarrow>
            route_get_vitals_pdf L now now' db fs pid =
              pdf_answer L now' fs pid (v\<lparr>timestamp := Some now\<rparr>)
            \<and> (writable fs (report_path L pid now) \<longrightarrow>
                 route_get_vitals_pdf L now now' db fs pid =
                   (fs\<lparr>files := (files fs)(report_path L pid now \<mapsto>
                        vitals_page L pid (v\<lparr>timestamp := Some now\<rparr>))\<rparr>,
                    FileResponse (report_path L pid now) ''application/pdf''
                      (basename (report_path L pid now)))))"
proof -
  have found: "route_get_vitals_pdf L now now' db fs pid = pdf_answer L now' fs pid w"
    if "Vitals_validate (normalize_doc L now (dict_set (Vitals_dict v) ''timestamp'' ts)) = Inr w"
    for w
    using get_vitals_pdf_found [OF assms, of L now w now' fs] that by simp
  have a: "route_get_vitals_pdf L now now' db fs pid =
      pdf_answer L now' fs pid (v\<lparr>timestamp := Some t\<rparr>)" if "ts = PyDatetime t" for t
    using that by (intro found) (simp only: normalize_doc_date Vitals_validate_dict)
  have b: "route_get_vitals_pdf L now now' db fs pid =
      pdf_answer L now' fs pid (v\<lparr>timestamp := Some t\<rparr>)"
    if "ts = PyStr s" and "fromisoformat L s = Some t" for s t
    using that by (intro found) (simp add: normalize_doc_str Vitals_validate_dict)
  have c: "route_get_vitals_pdf L now now' db fs pid =
      pdf_answer L now' fs pid (v\<lparr>timestamp := Some now\<rparr>)"
    if "ts = PyStr s" and "fromisoformat L s = None" for s
    using that by (intro found) (simp add: normalize_doc_str Vitals_validate_dict)
  show ?thesis
    using a b c by (auto simp: pdf_answer_writable)
qed

theorem stored_timestamp_never_raises_witness:
  "route_get_vitals_pdf sample_lib 42000 43000
      \<lparr>vitals = [(1, dict_set (Vitals_dict sample_vitals) ''timestamp'' (PyDatetime 7000))]\<rparr>
      sample_fs ''p1'' =
     (sample_fs\<lparr>files := (files sample_fs)(report_path sample_lib ''p1'' 7000 \<mapsto>
          vitals_page sample_lib ''p1'' (sample_vitals\<lparr>timestamp := Some 7000\<rparr>))\<rparr>,
      FileResponse (report_path sample_lib ''p1'' 7000) ''application/pdf''
        (basename (report_path sample_lib ''p1'' 7000)))
   \<and> route_get_vitals_pdf sample_lib 42000 43000
      \<lparr>vitals = [(1, dict_set (Vitals_dict sample_vitals) ''timestamp'' (PyStr ''0''))]\<rparr>
      sample_fs ''p1'' =
     (sample_fs\<lparr>files := (files sample_fs)(report_path sample_lib ''p1'' 0 \<mapsto>
          vitals_page sample_lib ''p1'' (sample_vitals\<lparr>timestamp := Some 0\<rparr>))\<rparr>,
      FileResponse (report_path sample_lib ''p1'' 0) ''application/pdf''
        (basename (report_path sample_lib ''p1'' 0)))
   \<and> route_get_vitals_pdf sample_lib 42000 43000
      \<lparr>vitals = [(1, dict_set (Vitals_dict sample_vitals) ''timestamp'' (PyStr ''yesterday''))]\<rparr>
      sample_fs ''p1'' =
     (sample_fs\<lparr>files := (files sample_fs)(report_path sample_lib ''p1'' 42000 \<mapsto>
          vitals_page sample_lib ''p1'' (sample_vitals\<lparr>timestamp := Some 42000\<rparr>))\<rparr>,
      FileResponse (report_path sample_lib ''p1'' 42000) ''application/pdf''
        (basename (report_path sample_lib ''p1'' 42000)))"
proof -
  have p: "patient_id sample_vitals = ''p1''" by (simp add: sample_vitals_def)
  have f: "find_one (vitals \<lparr>vitals = [(1, dict_set (Vitals_dict sample_vitals) ''timestamp'' ts)]\<rparr>) ''p1''
      = Some (1, dict_set (Vitals_dict sample_vitals) ''timestamp'' ts)" for ts
    using find_one_raw [of 1 sample_vitals ts] by (simp add: p)
  have l: "fromisoformat sample_lib ''0'' = Some 0" "fromisoformat sample_lib ''yesterday'' = None"
    by (simp_all add: sample_lib_def)
  have w1: "writable sample_fs (report_path sample_lib ''p1'' 7000)"
    by (rule writable_sample_p1 [OF str_int_7000]) simp_all
  have w2: "writable sample_fs (report_path sample_lib ''p1'' 0)"
    by (rule writable_sample_p1 [OF str_int_0]) simp_all
  have w3: "writable sample_fs (report_path sample_lib ''p1'' 42000)"
    by (rule writable_sample_p1 [OF str_int_42000]) simp_all
  have r1: "route_get_vitals_pdf sample_lib 42000 43000
      \<lparr>vitals = [(1, dict_set (Vitals_dict sample_vitals) ''timestamp'' (PyDatetime 7000))]\<rparr>
      sample_fs ''p1'' =
     (sample_fs\<lparr>files := (files sample_fs)(report_path sample_lib ''p1'' 7000 \<mapsto>
          vitals_page sample_lib ''p1'' (sample_vitals\<lparr>timestamp := Some 7000\<rparr>))\<rparr>,
      FileResponse (report_path sample_lib ''p1'' 7000) ''application/pdf''
        (basename (report_path sample_lib ''p1'' 7000)))"
    using w1
      stored_timestamp_never_raises [OF f, of "PyDatetime 7000" sample_lib 42000 43000 sample_fs]
    by blast
  have r2: "route_get_vitals_pdf sample_lib 42000 43000
      \<lparr>vitals = [(1, dict_set (Vitals_dict sample_vitals) ''timestamp'' (PyStr ''0''))]\<rparr>
      sample_fs ''p1'' =
     (sample_fs\<lparr>files := (files sample_fs)(report_path sample_lib ''p1'' 0 \<mapsto>
          vitals_page sample_lib ''p1'' (sample_vitals\<lparr>timestamp := Some 0\<rparr>))\<rparr>,
      FileResponse (report_path sample_lib ''p1'' 0) ''application/pdf''
        (basename (report_path sample_lib ''p1'' 0)))"
    using w2 l(1)
      stored_timestamp_never_raises [OF f, of "PyStr ''0''" sample_lib 42000 43000 sample_fs]
    by blast
  have r3: "route_get_vitals_pdf sample_lib 42000 43000
      \<lparr>vitals = [(1, dict_set (Vitals_dict sample_vitals) ''timestamp'' (PyStr ''yesterday''))]\<rparr>
      sample_fs ''p1'' =
     (sample_fs\<lparr>files := (files sample_fs)(report_path sample_lib ''p1'' 42000 \<mapsto>
          vitals_page sample_lib ''p1'' (sample_vitals\<lparr>timestamp := Some 42000\<rparr>))\<rparr>,
      FileResponse (report_path sample_lib ''p1'' 42000) ''application/pdf''
        (basename (report_path sample_lib ''p1'' 42000)))"
    using w3 l(2)
      stored_timestamp_never_raises [OF f, of "PyStr ''yesterday''" sample_lib 42000 43000 sample_fs]
    by blast
  from r1 r2 r3 show ?thesis by (intro conjI)
qed

end
